theory Spec2Isabelle
  imports Complex_Main
begin

text \<open>
  Shallow embedding of the three scenario simulators (flood, wind, thermal comfort).
  Python floats are modelled as exact reals: rounding of IEEE doubles, NaN and the
  infinities are outside the model, except for the vertical wind profile, which is given a
  second time with every operation rounded to a double. Dictionaries read by key are maps,
  so a missing key is the error value \<open>KeyError\<close>. The global \<open>numpy.random\<close> generator
  is an explicit state of an arbitrary type \<open>'g\<close>, threaded through every draw; the library
  operations on it, Python's string hash (which the interpreter salts anew in every run) and
  the optional comfort library are fields of a \<open>runtime\<close> record, one record per run of
  the interpreter, and the wall clock read by \<open>datetime.now()\<close> is an argument.
\<close>

section \<open>Python values and library operations\<close>

datatype py_error = KeyError | ZeroDivisionError | UnboundLocalError | ValueError

type_synonym location = "string \<rightharpoonup> real"
type_synonym config = "string \<rightharpoonup> location"

text \<open>\<open>int(x)\<close> on a float truncates towards zero.\<close>

definition py_int :: "real \<Rightarrow> int" where
  "py_int x = (if 0 \<le> x then \<lfloor>x\<rfloor> else \<lceil>x\<rceil>)"

text \<open>\<open>round(x, n)\<close>: nearest multiple of \<open>10^-n\<close>, a tie going to the even neighbour.\<close>

definition round_half_even :: "real \<Rightarrow> int" where
  "round_half_even x =
     (let f = \<lfloor>x\<rfloor>; d = x - of_int f
      in if d < 1 / 2 then f
         else if 1 / 2 < d then f + 1
         else if even f then f else f + 1)"

definition py_round :: "real \<Rightarrow> nat \<Rightarrow> real" where
  "py_round x n = of_int (round_half_even (x * 10 ^ n)) / 10 ^ n"

text \<open>\<open>xs.index(x)\<close>: position of the first occurrence, \<open>ValueError\<close> when there is none.\<close>

fun index_from :: "'a list \<Rightarrow> 'a \<Rightarrow> nat \<Rightarrow> py_error + nat" where
  "index_from [] x i = Inl ValueError"
| "index_from (y # ys) x i = (if y = x then Inr i else index_from ys x (Suc i))"

definition py_index :: "'a list \<Rightarrow> 'a \<Rightarrow> py_error + nat" where
  "py_index xs x = index_from xs x 0"

text \<open>
  The optional third-party comfort library (\<open>pythermalcomfort\<close>): \<open>pmv_ppd\<close> returns the
  pair (pmv, ppd) for (tdb, tr, vr, rh, met, clo), \<open>utci\<close> a temperature for (tdb, tr, v, rh).
\<close>

record thermal_lib =
  pmv_ppd :: "real \<Rightarrow> real \<Rightarrow> real \<Rightarrow> real \<Rightarrow> real \<Rightarrow> real \<Rightarrow> real \<times> real"
  utci :: "real \<Rightarrow> real \<Rightarrow> real \<Rightarrow> real \<Rightarrow> real"

text \<open>
  What the interpreter and numpy provide. \<open>np_seed\<close> is \<open>np.random.seed\<close> (the state it
  installs), the draws take the current state and return the value with the next state.
  \<open>np_choice xs p\<close> is \<open>np.random.choice(xs, p=p)\<close> on a list of strings.
\<close>

record 'g runtime =
  py_hash :: "string \<Rightarrow> int"
  np_seed :: "nat \<Rightarrow> 'g"
  np_normal :: "real \<Rightarrow> real \<Rightarrow> 'g \<Rightarrow> real \<times> 'g"
  np_exponential :: "real \<Rightarrow> 'g \<Rightarrow> real \<times> 'g"
  np_uniform :: "real \<Rightarrow> real \<Rightarrow> 'g \<Rightarrow> real \<times> 'g"
  np_choice :: "string list \<Rightarrow> real list \<Rightarrow> 'g \<Rightarrow> string \<times> 'g"
  pythermalcomfort :: "thermal_lib option"

text \<open>
  \<open>for i in range(n): points.append(body(i))\<close> where the body draws from the generator:
  \<open>for_range body i k\<close> runs the body for the indices \<open>i, i+1, ..., i+k-1\<close>.
\<close>

fun for_range :: "(nat \<Rightarrow> 'g \<Rightarrow> 'a \<times> 'g) \<Rightarrow> nat \<Rightarrow> nat \<Rightarrow> 'g \<Rightarrow> 'a list \<times> 'g" where
  "for_range body i 0 g = ([], g)"
| "for_range body i (Suc k) g =
     (case body i g of (x, g1) \<Rightarrow>
        (case for_range body (Suc i) k g1 of (xs, g2) \<Rightarrow> (x # xs, g2)))"

definition dict_get :: "('k \<rightharpoonup> 'v) \<Rightarrow> 'k \<Rightarrow> py_error + 'v" where
  "dict_get m k = (case m k of None \<Rightarrow> Inl KeyError | Some v \<Rightarrow> Inr v)"

text \<open>\<open>config['location'][key]\<close>.\<close>

definition config_location :: "config \<Rightarrow> string \<Rightarrow> py_error + real" where
  "config_location cfg key =
     (case dict_get cfg ''location'' of
        Inl e \<Rightarrow> Inl e
      | Inr loc \<Rightarrow> dict_get loc key)"

section \<open>FloodSimulator\<close>

record flood_simulator =
  f_config :: config
  f_area_km2 :: real
  base_elevation :: real
  urban_coverage :: real
  drainage_capacity :: real
  infiltration_rate :: real
  runoff_coefficient :: real
  manning_n :: real
  min_flow_depth :: real
  max_flow_velocity :: real

definition FloodSimulator_init :: "config \<Rightarrow> py_error + flood_simulator" where
  "FloodSimulator_init cfg =
     (case config_location cfg ''area_km2'' of
        Inl e \<Rightarrow> Inl e
      | Inr area \<Rightarrow>
     (case config_location cfg ''elevation_avg'' of
        Inl e \<Rightarrow> Inl e
      | Inr elev \<Rightarrow>
          Inr \<lparr> f_config = cfg, f_area_km2 = area, base_elevation = elev,
                urban_coverage = 0.25, drainage_capacity = 40, infiltration_rate = 8,
                runoff_coefficient = 0.75, manning_n = 0.035, min_flow_depth = 0.01,
                max_flow_velocity = 5.0 \<rparr>))"

definition calculate_effective_rainfall ::
  "flood_simulator \<Rightarrow> real \<Rightarrow> real \<Rightarrow> real \<times> real \<times> real" where
  "calculate_effective_rainfall sim rainfall_mm_h duration_h =
     (let effective_rainfall = max 0 (rainfall_mm_h - infiltration_rate sim);
          excess_rainfall = max 0 (effective_rainfall - drainage_capacity sim);
          total_excess_mm = excess_rainfall * duration_h * runoff_coefficient sim
      in (effective_rainfall, excess_rainfall, total_excess_mm))"

definition calculate_flood_depths :: "real \<Rightarrow> real \<times> real" where
  "calculate_flood_depths total_excess_mm =
     (if total_excess_mm \<le> 0 then (0.0, 0.0)
      else
        (let depth_factor = 0.8;
             max_depth = min (total_excess_mm / 100 * depth_factor) 3.0;
             area_factor = 1.2;
             flooded_area_pct = min 100 (total_excess_mm * area_factor)
         in (max_depth, flooded_area_pct)))"

definition risk_levels :: "string list" where
  "risk_levels = [''MINIMALNE'', ''NISKIE'', ''UMIARKOWANE'', ''WYSOKIE'', ''KRYTYCZNE'']"

definition assess_flood_risk :: "real \<Rightarrow> string" where
  "assess_flood_risk max_depth =
     (if max_depth < 0.05 then risk_levels ! 0
      else if max_depth < 0.15 then risk_levels ! 1
      else if max_depth < 0.40 then risk_levels ! 2
      else if max_depth < 0.80 then risk_levels ! 3
      else risk_levels ! 4)"

record building_impact =
  total :: int
  at_risk :: int
  affected_population :: int

definition calculate_building_impact :: "flood_simulator \<Rightarrow> real \<Rightarrow> building_impact" where
  "calculate_building_impact sim flooded_area_km2 =
     (let buildings_per_km2 = 350;
          occupancy_rate = 0.6;
          residents_per_building = 3;
          total_buildings = py_int (f_area_km2 sim * buildings_per_km2 * urban_coverage sim);
          buildings_at_risk =
            min (py_int (flooded_area_km2 * buildings_per_km2 * occupancy_rate)) total_buildings;
          affected = buildings_at_risk * residents_per_building
      in \<lparr> total = total_buildings, at_risk = buildings_at_risk,
           affected_population = affected \<rparr>)"

definition calculate_economic_damage :: "int \<Rightarrow> real \<Rightarrow> int" where
  "calculate_economic_damage buildings_at_risk total_volume_m3 =
     (let damage_per_building = 50000;
          infrastructure_damage_rate = 10;
          total_damage = of_int (buildings_at_risk * damage_per_building)
                           + total_volume_m3 * infrastructure_damage_rate
      in py_int total_damage)"

record flood_zone =
  fz_lat :: real
  fz_lng :: real
  depth_m :: real
  elevation_m :: real
  flow_velocity :: real
  zone_id :: int
  surface_type :: string

text \<open>One pass of the loop body of \<open>generate_flood_zones\<close>, for the index \<open>i\<close>.\<close>

definition flood_zone_at ::
  "'g runtime \<Rightarrow> flood_simulator \<Rightarrow> real \<Rightarrow> real \<Rightarrow> real \<Rightarrow> nat \<Rightarrow> 'g \<Rightarrow> flood_zone \<times> 'g" where
  "flood_zone_at rt sim max_depth center_lat center_lng i g =
     (case np_normal rt 0 0.008 g of (n1, g1) \<Rightarrow>
      case np_normal rt 0 0.012 g1 of (n2, g2) \<Rightarrow>
      case (if 0 < max_depth
            then (case np_exponential rt (max_depth * 0.6) g2 of (e, g') \<Rightarrow>
                    (min (max 0.02 e) max_depth, g'))
            else (0.02, g2)) of (depth, g3) \<Rightarrow>
      case np_normal rt 0 2 g3 of (n3, g4) \<Rightarrow>
      case np_choice rt [''road'', ''sidewalk'', ''green'', ''plaza''] [0.4, 0.25, 0.2, 0.15] g4
        of (surface, g5) \<Rightarrow>
        (let lat = center_lat + n1;
             lng = center_lng + n2;
             velocity = (if 0 < depth then min (sqrt depth * 1.5) (max_flow_velocity sim) else 0);
             elevation = base_elevation sim + n3
         in (\<lparr> fz_lat = py_round lat 6, fz_lng = py_round lng 6, depth_m = py_round depth 3,
                elevation_m = py_round elevation 1, flow_velocity = py_round velocity 2,
                zone_id = int i + 1, surface_type = surface \<rparr>, g5)))"

definition generate_flood_zones ::
  "'g runtime \<Rightarrow> flood_simulator \<Rightarrow> string \<Rightarrow> real \<Rightarrow> real \<Rightarrow> 'g
     \<Rightarrow> (py_error + flood_zone list) \<times> 'g" where
  "generate_flood_zones rt sim scenario_name max_depth flooded_area_pct g =
     (let seed_value = nat (\<bar>py_hash rt scenario_name\<bar> mod 2 ^ 31);
          g0 = np_seed rt seed_value;
          num_zones = max 5 (min 50 (py_int (flooded_area_pct * 0.8)))
      in case config_location (f_config sim) ''center_lat'' of
           Inl e \<Rightarrow> (Inl e, g0)
         | Inr center_lat \<Rightarrow>
        (case config_location (f_config sim) ''center_lng'' of
           Inl e \<Rightarrow> (Inl e, g0)
         | Inr center_lng \<Rightarrow>
            (case for_range (flood_zone_at rt sim max_depth center_lat center_lng) 0
                    (nat num_zones) g0 of
               (zones, g1) \<Rightarrow> (Inr zones, g1))))"

record flood_parameters =
  rainfall_mm_h :: real
  duration_h :: real
  total_rainfall_mm :: real
  effective_rainfall_mm :: real
  excess_rainfall_mm :: real
  p_runoff_coefficient :: real

record hydraulic_conditions =
  drainage_capacity_mm_h :: real
  infiltration_rate_mm_h :: real
  manning_roughness :: real
  urban_coverage_percent :: real

record flood_metrics =
  max_depth_m :: real
  mean_depth_m :: real
  flooded_area_km2 :: real
  flooded_area_percent :: real
  total_volume_m3 :: real
  peak_flow_velocity_ms :: real
  risk_level :: string
  risk_score :: nat

record impact_assessment =
  buildings_total :: int
  buildings_at_risk :: int
  ia_affected_population :: int
  economic_damage_pln :: int
  economic_damage_eur :: real
  evacuation_needed :: bool

record flood_visualization =
  fv_center_lat :: real
  fv_center_lng :: real
  fv_zoom_level :: int
  fv_color_scale :: string
  max_marker_size :: int

record flood_result =
  f_scenario_name :: string
  f_module :: string
  f_model_version :: string
  f_computation_time :: string
  f_parameters :: flood_parameters
  f_hydraulic_conditions :: hydraulic_conditions
  f_metrics :: flood_metrics
  f_impact_assessment :: impact_assessment
  flood_zones :: "flood_zone list option"
  f_visualization :: "flood_visualization option"

text \<open>
  \<open>FloodSimulator.simulate_scenario\<close>. \<open>now\<close> is the text of \<open>datetime.now().isoformat()\<close>;
  the optional entries \<open>flood_zones\<close> and \<open>visualization\<close> are present exactly when
  \<open>detailed_output\<close> holds.
\<close>

definition flood_simulate_scenario ::
  "'g runtime \<Rightarrow> flood_simulator \<Rightarrow> real \<Rightarrow> real \<Rightarrow> string \<Rightarrow> bool \<Rightarrow> string \<Rightarrow> 'g
     \<Rightarrow> (py_error + flood_result) \<times> 'g" where
  "flood_simulate_scenario rt sim rainfall duration scenario_name detailed_output now g =
     (case calculate_effective_rainfall sim rainfall duration of
        (effective_rainfall, excess_rainfall, total_excess_mm) \<Rightarrow>
      case calculate_flood_depths total_excess_mm of (max_depth, flooded_area_pct) \<Rightarrow>
       (let area_km2 = (flooded_area_pct / 100) * f_area_km2 sim;
            risk = assess_flood_risk max_depth;
            impact = calculate_building_impact sim area_km2;
            volume = area_km2 * 1000000 * (max_depth * 0.4);
            damage = calculate_economic_damage (at_risk impact) volume
        in case (if detailed_output
                 then generate_flood_zones rt sim scenario_name max_depth flooded_area_pct g
                 else (Inr [], g)) of
             (Inl e, g1) \<Rightarrow> (Inl e, g1)
           | (Inr zones, g1) \<Rightarrow>
          (case py_index risk_levels risk of
             Inl e \<Rightarrow> (Inl e, g1)
           | Inr idx \<Rightarrow>
          (let result = \<lparr>
                 f_scenario_name = scenario_name,
                 f_module = ''FloodSim'',
                 f_model_version = ''FloodSim_v2.1_Suwalki'',
                 f_computation_time = now,
                 f_parameters = \<lparr>
                   rainfall_mm_h = rainfall,
                   duration_h = duration,
                   total_rainfall_mm = rainfall * duration,
                   effective_rainfall_mm = effective_rainfall * duration,
                   excess_rainfall_mm = excess_rainfall * duration,
                   p_runoff_coefficient = runoff_coefficient sim \<rparr>,
                 f_hydraulic_conditions = \<lparr>
                   drainage_capacity_mm_h = drainage_capacity sim,
                   infiltration_rate_mm_h = infiltration_rate sim,
                   manning_roughness = manning_n sim,
                   urban_coverage_percent = urban_coverage sim * 100 \<rparr>,
                 f_metrics = \<lparr>
                   max_depth_m = py_round max_depth 3,
                   mean_depth_m = py_round (max_depth * 0.4) 3,
                   flooded_area_km2 = py_round area_km2 4,
                   flooded_area_percent = py_round flooded_area_pct 1,
                   total_volume_m3 = py_round volume 0,
                   peak_flow_velocity_ms =
                     py_round (if 0 < max_depth then sqrt max_depth * 1.5 else 0) 2,
                   risk_level = risk,
                   risk_score = length (take (idx + 1) risk_levels) \<rparr>,
                 f_impact_assessment = \<lparr>
                   buildings_total = total impact,
                   buildings_at_risk = at_risk impact,
                   ia_affected_population = affected_population impact,
                   economic_damage_pln = damage,
                   economic_damage_eur = py_round (of_int damage / 4.5) 0,
                   evacuation_needed = (0.5 < max_depth) \<rparr>,
                 flood_zones = None,
                 f_visualization = None \<rparr>
           in if detailed_output
              then (case config_location (f_config sim) ''center_lat'' of
                      Inl e \<Rightarrow> (Inl e, g1)
                    | Inr clat \<Rightarrow>
                   (case config_location (f_config sim) ''center_lng'' of
                      Inl e \<Rightarrow> (Inl e, g1)
                    | Inr clng \<Rightarrow>
                       (Inr (result \<lparr> flood_zones := Some zones,
                               f_visualization := Some \<lparr>
                                 fv_center_lat = clat, fv_center_lng = clng,
                                 fv_zoom_level = 14, fv_color_scale = ''Blues'',
                                 max_marker_size = 20 \<rparr> \<rparr>), g1)))
              else (Inr result, g1)))))"

text \<open>The total excess, maximum depth and flooded share that a scenario is computed from.\<close>

definition total_excess_of :: "flood_simulator \<Rightarrow> real \<Rightarrow> real \<Rightarrow> real" where
  "total_excess_of sim rainfall duration =
     snd (snd (calculate_effective_rainfall sim rainfall duration))"

definition max_depth_of :: "flood_simulator \<Rightarrow> real \<Rightarrow> real \<Rightarrow> real" where
  "max_depth_of sim rainfall duration =
     fst (calculate_flood_depths (total_excess_of sim rainfall duration))"

definition flooded_area_pct_of :: "flood_simulator \<Rightarrow> real \<Rightarrow> real \<Rightarrow> real" where
  "flooded_area_pct_of sim rainfall duration =
     snd (calculate_flood_depths (total_excess_of sim rainfall duration))"

section \<open>WindSimulator\<close>

record wind_simulator =
  w_config :: config
  w_area_km2 :: real
  w_center_lat :: real
  w_center_lng :: real
  building_density :: real
  average_building_height :: real
  surface_roughness :: real
  air_density :: real
  reference_height :: real
  pedestrian_height :: real
  von_karman_constant :: real
  tunnel_amplification :: real
  wake_reduction :: real
  green_area_reduction :: real

definition WindSimulator_init :: "config \<Rightarrow> py_error + wind_simulator" where
  "WindSimulator_init cfg =
     (case config_location cfg ''area_km2'' of
        Inl e \<Rightarrow> Inl e
      | Inr area \<Rightarrow>
     (case config_location cfg ''center_lat'' of
        Inl e \<Rightarrow> Inl e
      | Inr lat \<Rightarrow>
     (case config_location cfg ''center_lng'' of
        Inl e \<Rightarrow> Inl e
      | Inr lng \<Rightarrow>
          Inr \<lparr> w_config = cfg, w_area_km2 = area, w_center_lat = lat, w_center_lng = lng,
                building_density = 0.25, average_building_height = 18,
                surface_roughness = 0.3, air_density = 1.225, reference_height = 10.0,
                pedestrian_height = 1.5, von_karman_constant = 0.41,
                tunnel_amplification = 0.8, wake_reduction = 0.3,
                green_area_reduction = 0.4 \<rparr>)))"

text \<open>
  The logarithmic profile. The quotient \<open>(height + z0) / z0\<close> is a division of Python
  floats and raises for \<open>z0 = 0\<close>; the quotient of the two logarithms is a numpy division,
  which does not raise.
\<close>

definition calculate_wind_profile ::
  "wind_simulator \<Rightarrow> real \<Rightarrow> real \<Rightarrow> real option \<Rightarrow> real option \<Rightarrow> py_error + real" where
  "calculate_wind_profile sim height u_ref z_ref_arg z0_arg =
     (let z_ref = (case z_ref_arg of None \<Rightarrow> reference_height sim | Some z \<Rightarrow> z);
          z0 = (case z0_arg of None \<Rightarrow> surface_roughness sim | Some z \<Rightarrow> z);
          height = (if height \<le> z0 then z0 + 0.1 else height)
      in if z0 = 0 then Inl ZeroDivisionError
         else
           (let wind_speed = u_ref * ln ((height + z0) / z0) / ln ((z_ref + z0) / z0)
            in Inr (max 0 wind_speed)))"

definition main_street_directions :: "real list" where
  "main_street_directions = [0, 90, 180, 270]"

definition calculate_directional_factor :: "real \<Rightarrow> real" where
  "calculate_directional_factor direction =
     (let min_angle_diff =
            min_list (map (\<lambda>street_dir. \<bar>direction - street_dir\<bar>) main_street_directions)
      in if min_angle_diff \<le> 15 then 1.15
         else if min_angle_diff \<le> 30 then 1.05
         else 0.9)"

record urban_effects =
  max_tunnel_speed :: real
  min_wake_speed :: real
  avg_urban_speed :: real
  pedestrian_speed :: real
  directional_factor :: real
  tunnel_factor :: real
  wake_reduction_pct :: real

definition calculate_urban_effects ::
  "wind_simulator \<Rightarrow> real \<Rightarrow> real \<Rightarrow> py_error + urban_effects" where
  "calculate_urban_effects sim wind_speed_ref direction =
     (let tunnel = 1.0 + (building_density sim * tunnel_amplification sim);
          max_tunnel = wind_speed_ref * tunnel;
          min_wake = wind_speed_ref * (1 - wake_reduction sim);
          urban_reduction_factor = 1 - (building_density sim * 0.4);
          avg_urban = wind_speed_ref * urban_reduction_factor
      in case calculate_wind_profile sim (pedestrian_height sim) wind_speed_ref None None of
           Inl e \<Rightarrow> Inl e
         | Inr pedestrian \<Rightarrow>
            (let factor = calculate_directional_factor direction
             in Inr \<lparr> max_tunnel_speed = max_tunnel * factor,
                      min_wake_speed = min_wake * factor,
                      avg_urban_speed = avg_urban * factor,
                      pedestrian_speed = pedestrian * factor,
                      directional_factor = factor,
                      tunnel_factor = tunnel,
                      wake_reduction_pct = wake_reduction sim * 100 \<rparr>))"

text \<open>
  The Lawson levels, in the order of the source: KOMFORTOWO, AKCEPTOWALNE, NIEWLASCIWE,
  NIEBEZPIECZNE, EKSTREMALNIE NIEBEZPIECZNE. The third component of the source's result,
  a fixed sentence for each level, is determined by the level and is not repeated here.
\<close>

datatype lawson_level =
  KOMFORTOWO | AKCEPTOWALNE | NIEWLASCIWE | NIEBEZPIECZNE | EKSTREMALNIE_NIEBEZPIECZNE

definition assess_pedestrian_comfort :: "real \<Rightarrow> lawson_level \<times> nat" where
  "assess_pedestrian_comfort wind_speed =
     (if wind_speed < 4 then (KOMFORTOWO, 1)
      else if wind_speed < 6 then (AKCEPTOWALNE, 2)
      else if wind_speed < 8 then (NIEWLASCIWE, 3)
      else if wind_speed < 12 then (NIEBEZPIECZNE, 4)
      else (EKSTREMALNIE_NIEBEZPIECZNE, 5))"

record wind_pressures =
  dynamic_pressure_pa :: real
  windward_pressure_pa :: real
  leeward_pressure_pa :: real
  side_pressure_pa :: real
  roof_windward_pa :: real
  roof_leeward_pa :: real
  pressure_difference_pa :: real

definition calculate_wind_pressure :: "wind_simulator \<Rightarrow> real \<Rightarrow> wind_pressures" where
  "calculate_wind_pressure sim wind_speed =
     (let dynamic_pressure = 0.5 * air_density sim * wind_speed\<^sup>2;
          cp_windward = 0.8;
          cp_leeward = - 0.5;
          cp_side = - 0.7;
          cp_roof_windward = - 0.3;
          cp_roof_leeward = - 0.6
      in \<lparr> dynamic_pressure_pa = dynamic_pressure,
           windward_pressure_pa = dynamic_pressure * cp_windward,
           leeward_pressure_pa = dynamic_pressure * cp_leeward,
           side_pressure_pa = dynamic_pressure * cp_side,
           roof_windward_pa = dynamic_pressure * cp_roof_windward,
           roof_leeward_pa = dynamic_pressure * cp_roof_leeward,
           pressure_difference_pa = dynamic_pressure * (cp_windward - cp_leeward) \<rparr>)"

text \<open>The float remainder \<open>x % m\<close> for a positive modulus.\<close>

definition py_fmod :: "real \<Rightarrow> real \<Rightarrow> real" where
  "py_fmod x m = x - m * of_int \<lfloor>x / m\<rfloor>"

definition np_radians :: "real \<Rightarrow> real" where
  "np_radians deg = deg * pi / 180"

record wind_point =
  wp_lat :: real
  wp_lng :: real
  speed :: real
  direction :: real
  vx :: real
  vy :: real
  height_agl :: real
  turbulence_intensity :: real
  environment_type :: string
  gust_factor :: real

text \<open>One pass of the loop body of \<open>generate_wind_field\<close>.\<close>

definition wind_point_at ::
  "'g runtime \<Rightarrow> wind_simulator \<Rightarrow> real \<Rightarrow> urban_effects \<Rightarrow> nat \<Rightarrow> 'g \<Rightarrow> wind_point \<times> 'g" where
  "wind_point_at rt sim wind_direction effects i g =
     (case np_normal rt 0 0.008 g of (n1, g1) \<Rightarrow>
      case np_normal rt 0 0.012 g1 of (n2, g2) \<Rightarrow>
      case np_uniform rt 0.6 1.4 g2 of (spatial_variation, g3) \<Rightarrow>
      case np_choice rt [''open'', ''tunnel'', ''wake'', ''green'', ''intersection'']
             [0.3, 0.2, 0.2, 0.15, 0.15] g3 of (env, g4) \<Rightarrow>
      case np_normal rt 0 25 g4 of (deviation, g5) \<Rightarrow>
      case np_uniform rt 1.0 20.0 g5 of (height, g6) \<Rightarrow>
        (let lat = w_center_lat sim + n1;
             lng = w_center_lng sim + n2;
             (local_speed, turbulence) =
               (if env = ''tunnel'' then (max_tunnel_speed effects * spatial_variation, 0.25)
                else if env = ''wake'' then (min_wake_speed effects * spatial_variation, 0.15)
                else if env = ''green''
                  then (avg_urban_speed effects * (1 - green_area_reduction sim)
                          * spatial_variation, 0.1)
                else if env = ''intersection''
                  then (avg_urban_speed effects * 1.1 * spatial_variation, 0.2)
                else (avg_urban_speed effects * spatial_variation, 0.12));
             direction_deviation =
               (if env \<in> set [''tunnel'', ''intersection''] then deviation * 1.5 else deviation);
             local_direction = py_fmod (wind_direction + direction_deviation) 360;
             wind_angle_rad = np_radians (270 - local_direction);
             x = local_speed * cos wind_angle_rad;
             y = local_speed * sin wind_angle_rad
         in (\<lparr> wp_lat = py_round lat 6, wp_lng = py_round lng 6,
                speed = py_round local_speed 2, direction = py_round local_direction 1,
                vx = py_round x 2, vy = py_round y 2, height_agl = py_round height 1,
                turbulence_intensity = py_round turbulence 3, environment_type = env,
                gust_factor = py_round (1 + turbulence * 0.5) 2 \<rparr>, g6)))"

definition generate_wind_field ::
  "'g runtime \<Rightarrow> wind_simulator \<Rightarrow> string \<Rightarrow> real \<Rightarrow> real \<Rightarrow> urban_effects \<Rightarrow> 'g
     \<Rightarrow> wind_point list \<times> 'g" where
  "generate_wind_field rt sim scenario_name wind_speed_ref wind_direction effects g =
     (let seed_value = nat (\<bar>py_int wind_direction + py_int (wind_speed_ref * 10)\<bar> mod 2 ^ 31);
          g0 = np_seed rt seed_value;
          num_points = min 100 (max 20 (py_int (wind_speed_ref * 5)))
      in for_range (wind_point_at rt sim wind_direction effects) 0 (nat num_points) g0)"

text \<open>The distribution over the keys komfortowo, akceptowalne, niewlasciwe, niebezpieczne.\<close>

record comfort_zones =
  komfortowo :: int
  akceptowalne :: int
  niewlasciwe :: int
  niebezpieczne :: int

definition calculate_comfort_zones_distribution :: "urban_effects \<Rightarrow> comfort_zones" where
  "calculate_comfort_zones_distribution effects =
     (let avg_speed = avg_urban_speed effects
      in if avg_speed < 3
           then \<lparr> komfortowo = 90, akceptowalne = 8, niewlasciwe = 2, niebezpieczne = 0 \<rparr>
         else if avg_speed < 5
           then \<lparr> komfortowo = 70, akceptowalne = 20, niewlasciwe = 8, niebezpieczne = 2 \<rparr>
         else if avg_speed < 8
           then \<lparr> komfortowo = 40, akceptowalne = 35, niewlasciwe = 20, niebezpieczne = 5 \<rparr>
         else if avg_speed < 12
           then \<lparr> komfortowo = 15, akceptowalne = 25, niewlasciwe = 40, niebezpieczne = 20 \<rparr>
         else \<lparr> komfortowo = 5, akceptowalne = 10, niewlasciwe = 30, niebezpieczne = 55 \<rparr>)"

record wind_parameters =
  wind_speed_ref :: real
  wind_direction :: real
  p_reference_height :: real
  p_surface_roughness :: real
  p_air_density :: real

record urban_characteristics =
  building_density_percent :: real
  u_average_building_height :: real
  u_tunnel_amplification :: real
  u_wake_reduction :: real
  u_directional_factor :: real

record wind_field_analysis =
  max_speed :: real
  min_speed :: real
  a_avg_urban_speed :: real
  a_pedestrian_speed :: real
  speed_variation_factor :: real

record comfort_assessment =
  pedestrian_comfort_level :: lawson_level
  comfort_score :: nat
  comfort_zones_percent :: real
  comfort_distribution :: comfort_zones

record structural_loads =
  s_dynamic_pressure_pa :: real
  s_windward_pressure_pa :: real
  s_leeward_pressure_pa :: real
  s_pressure_difference_pa :: real
  design_wind_load_knm2 :: real

record wind_visualization =
  wv_center_lat :: real
  wv_center_lng :: real
  wv_zoom_level :: int
  vector_scale :: int
  wv_color_scale :: string
  particle_count :: nat

record wind_result =
  w_scenario_name :: string
  w_module :: string
  w_model_version :: string
  w_computation_time :: string
  w_parameters :: wind_parameters
  w_urban_characteristics :: urban_characteristics
  w_wind_field_analysis :: wind_field_analysis
  w_comfort_assessment :: comfort_assessment
  w_structural_loads :: structural_loads
  wind_field :: "wind_point list option"
  w_visualization :: "wind_visualization option"

text \<open>
  \<open>WindSimulator.simulate_scenario\<close>. The field is generated before the result is
  assembled; the quotient for \<open>speed_variation_factor\<close> is a division of Python floats.
\<close>

definition wind_simulate_scenario ::
  "'g runtime \<Rightarrow> wind_simulator \<Rightarrow> real \<Rightarrow> real \<Rightarrow> string \<Rightarrow> bool \<Rightarrow> string \<Rightarrow> 'g
     \<Rightarrow> (py_error + wind_result) \<times> 'g" where
  "wind_simulate_scenario rt sim speed_ref dir scenario_name detailed_output now g =
     (case calculate_urban_effects sim speed_ref dir of
        Inl e \<Rightarrow> (Inl e, g)
      | Inr effects \<Rightarrow>
     (case assess_pedestrian_comfort (pedestrian_speed effects) of (comfort, score) \<Rightarrow>
       (let pressures = calculate_wind_pressure sim speed_ref;
            zones = calculate_comfort_zones_distribution effects;
            zones_percent = komfortowo zones + akceptowalne zones
        in case (if detailed_output
                 then generate_wind_field rt sim scenario_name speed_ref dir effects g
                 else ([], g)) of
             (field, g1) \<Rightarrow>
               if min_wake_speed effects = 0 then (Inl ZeroDivisionError, g1)
               else
                 (let result = \<lparr>
                        w_scenario_name = scenario_name,
                        w_module = ''WindSim'',
                        w_model_version = ''WindSim_v1.9_CFD'',
                        w_computation_time = now,
                        w_parameters = \<lparr>
                          wind_speed_ref = speed_ref,
                          wind_direction = dir,
                          p_reference_height = reference_height sim,
                          p_surface_roughness = surface_roughness sim,
                          p_air_density = air_density sim \<rparr>,
                        w_urban_characteristics = \<lparr>
                          building_density_percent = building_density sim * 100,
                          u_average_building_height = average_building_height sim,
                          u_tunnel_amplification = tunnel_amplification sim,
                          u_wake_reduction = wake_reduction sim,
                          u_directional_factor = directional_factor effects \<rparr>,
                        w_wind_field_analysis = \<lparr>
                          max_speed = py_round (max_tunnel_speed effects) 2,
                          min_speed = py_round (min_wake_speed effects) 2,
                          a_avg_urban_speed = py_round (avg_urban_speed effects) 2,
                          a_pedestrian_speed = py_round (pedestrian_speed effects) 2,
                          speed_variation_factor =
                            py_round (max_tunnel_speed effects / min_wake_speed effects) 2 \<rparr>,
                        w_comfort_assessment = \<lparr>
                          pedestrian_comfort_level = comfort,
                          comfort_score = score,
                          comfort_zones_percent = py_round (of_int zones_percent) 1,
                          comfort_distribution = zones \<rparr>,
                        w_structural_loads = \<lparr>
                          s_dynamic_pressure_pa = py_round (dynamic_pressure_pa pressures) 0,
                          s_windward_pressure_pa = py_round (windward_pressure_pa pressures) 0,
                          s_leeward_pressure_pa = py_round (leeward_pressure_pa pressures) 0,
                          s_pressure_difference_pa =
                            py_round (pressure_difference_pa pressures) 0,
                          design_wind_load_knm2 =
                            py_round (dynamic_pressure_pa pressures / 1000) 2 \<rparr>,
                        wind_field = None,
                        w_visualization = None \<rparr>
                  in if detailed_output
                     then (Inr (result \<lparr> wind_field := Some field,
                                  w_visualization := Some \<lparr>
                                    wv_center_lat = w_center_lat sim,
                                    wv_center_lng = w_center_lng sim,
                                    wv_zoom_level = 14, vector_scale = 10,
                                    wv_color_scale = ''Viridis'',
                                    particle_count = length field \<rparr> \<rparr>), g1)
                     else (Inr result, g1)))))"

section \<open>ThermalComfortSimulator\<close>

record thermal_simulator =
  t_config :: config
  t_center_lat :: real
  t_center_lng :: real
  t_area_km2 :: real
  human_body_surface_area :: real
  skin_emissivity :: real
  evaporation_heat :: real
  stefan_boltzmann :: real
  air_specific_heat :: real
  air_density_stp :: real
  urban_heat_island_max :: real
  green_cooling_effect :: real
  water_cooling_effect :: real

definition ThermalComfortSimulator_init :: "config \<Rightarrow> py_error + thermal_simulator" where
  "ThermalComfortSimulator_init cfg =
     (case config_location cfg ''center_lat'' of
        Inl e \<Rightarrow> Inl e
      | Inr lat \<Rightarrow>
     (case config_location cfg ''center_lng'' of
        Inl e \<Rightarrow> Inl e
      | Inr lng \<Rightarrow>
     (case config_location cfg ''area_km2'' of
        Inl e \<Rightarrow> Inl e
      | Inr area \<Rightarrow>
          Inr \<lparr> t_config = cfg, t_center_lat = lat, t_center_lng = lng, t_area_km2 = area,
                human_body_surface_area = 1.8, skin_emissivity = 0.97,
                evaporation_heat = 2430000, stefan_boltzmann = 5.67 / 10 ^ 8,
                air_specific_heat = 1005, air_density_stp = 1.225,
                urban_heat_island_max = 4.0, green_cooling_effect = - 2.5,
                water_cooling_effect = - 1.5 \<rparr>)))"

text \<open>
  The local variables of \<open>calculate_pmv_detailed\<close> that the iteration reads and writes.
  \<open>tcl_k\<close> and \<open>hc\<close> are not assigned before the loop: \<open>None\<close> is the unbound variable.
\<close>

record pmv_locals =
  tcl :: real
  tcl_k :: "real option"
  hc :: "real option"

text \<open>
  One pass of the loop body, statement by statement: \<open>hc\<close> is assigned twice, then \<open>hr\<close>
  is computed from \<open>tcl_k\<close>, and only afterwards \<open>tcl_k\<close> is assigned.
\<close>

definition pmv_iteration ::
  "thermal_simulator \<Rightarrow> real \<Rightarrow> real \<Rightarrow> real \<Rightarrow> real \<Rightarrow> real \<Rightarrow> real \<Rightarrow> real \<Rightarrow> real
     \<Rightarrow> pmv_locals \<Rightarrow> py_error + pmv_locals" where
  "pmv_iteration sim ta ta_k tr_k va M W Icl fcl st =
     (let hc1 = (if va < 0.1 then 2.38 * (\<bar>tcl st - ta\<bar> powr 0.25) else 12.1 * sqrt va);
          hc2 = max hc1 (12.1 * sqrt va)
      in case tcl_k st of
           None \<Rightarrow> Inl UnboundLocalError
         | Some k \<Rightarrow>
            (let hr = 4 * stefan_boltzmann sim * fcl * ((k + tr_k) / 2) ^ 3;
                 k_new = tcl st + 273.15;
                 tcl_new = (Icl * fcl * (M - W) + fcl * hr * tr_k + fcl * hc2 * ta + ta_k)
                             / (1 + Icl * fcl * (hr + hc2))
             in Inr \<lparr> tcl = tcl_new - 273.15, tcl_k = Some k_new, hc = Some hc2 \<rparr>))"

text \<open>\<open>for _ in range(n)\<close> around the body; an exception leaves the loop.\<close>

fun pmv_loop ::
  "nat \<Rightarrow> (pmv_locals \<Rightarrow> py_error + pmv_locals) \<Rightarrow> pmv_locals \<Rightarrow> py_error + pmv_locals" where
  "pmv_loop 0 body st = Inr st"
| "pmv_loop (Suc n) body st =
     (case body st of Inl e \<Rightarrow> Inl e | Inr st' \<Rightarrow> pmv_loop n body st')"

definition calculate_pmv_detailed ::
  "thermal_simulator \<Rightarrow> real \<Rightarrow> real \<Rightarrow> real \<Rightarrow> real \<Rightarrow> real \<Rightarrow> real \<Rightarrow> real option
     \<Rightarrow> py_error + real" where
  "calculate_pmv_detailed sim ta tr va rh met clo pa_arg =
     (let ta_k = ta + 273.15;
          tr_k = tr + 273.15
      in case (case pa_arg of
                 Some p \<Rightarrow> Inr p
               | None \<Rightarrow>
                   if ta + 237.3 = 0 then Inl ZeroDivisionError
                   else (let es = 610.78 * exp (17.27 * ta / (ta + 237.3))
                         in Inr (rh / 100 * es))) of
           Inl e \<Rightarrow> Inl e
         | Inr pa \<Rightarrow>
            (let M = met * 58.15;
                 W = 0;
                 Icl = clo * 0.155;
                 fcl = (if Icl \<le> 0.078 then 1.0 + 1.290 * Icl else 1.05 + 0.645 * Icl)
             in case pmv_loop 10 (pmv_iteration sim ta ta_k tr_k va M W Icl fcl)
                       \<lparr> tcl = ta, tcl_k = None, hc = None \<rparr> of
                  Inl e \<Rightarrow> Inl e
                | Inr st \<Rightarrow>
                   (case hc st of
                      None \<Rightarrow> Inl UnboundLocalError
                    | Some h \<Rightarrow>
                       (let k = tcl st + 273.15;
                            HL1 = 3.05 * 0.001 * (5733 - 6.99 * (M - W) - pa);
                            HL2 = (if 58.15 < M - W then 0.42 * ((M - W) - 58.15) else 0);
                            HL3 = 1.7 * 0.00001 * M * (5867 - pa);
                            HL4 = 0.0014 * M * (34 - ta);
                            HL5 = 3.96 * fcl * (k ^ 4 - tr_k ^ 4);
                            HL6 = fcl * h * (tcl st - ta);
                            thermal_load = M - W - HL1 - HL2 - HL3 - HL4 - HL5 - HL6;
                            pmv = (0.303 * exp (- 0.036 * M) + 0.028) * thermal_load
                        in Inr (max (- 3.0) (min 3.0 pmv))))))"

definition calculate_pmv_simple ::
  "real \<Rightarrow> real \<Rightarrow> real \<Rightarrow> real \<Rightarrow> real \<Rightarrow> real \<Rightarrow> real" where
  "calculate_pmv_simple ta tr va rh met clo =
     (let t_eff = ta + 0.3 * (tr - ta) - 2.0 * sqrt va;
          humidity_factor = 1 + 0.01 * (rh - 50);
          met_factor = 1 + 0.5 * (met - 1.2);
          clo_factor = 1 - 0.3 * (clo - 0.7);
          pmv = (t_eff - 22) / 8 * humidity_factor * met_factor * clo_factor
      in max (- 3.0) (min 3.0 pmv))"

definition calculate_ppd_from_pmv :: "real \<Rightarrow> real" where
  "calculate_ppd_from_pmv pmv =
     (let ppd = 100 - 95 * exp (- 0.03353 * pmv ^ 4 - 0.2179 * pmv\<^sup>2)
      in max 5.0 (min 100.0 ppd))"

definition calculate_utci_simple :: "real \<Rightarrow> real \<Rightarrow> real \<Rightarrow> real \<Rightarrow> real" where
  "calculate_utci_simple ta tr va rh =
     (let u0 = ta;
          u1 = u0 + 0.4 * (tr - ta);
          u2 = (if 0.5 < va then u1 + (- 2.0 * sqrt va) else u1);
          humidity_effect = (if 20 < ta then 0.01 * (rh - 50) else - 0.005 * (rh - 50))
      in u2 + humidity_effect)"

definition calculate_pet_simple ::
  "real \<Rightarrow> real \<Rightarrow> real \<Rightarrow> real \<Rightarrow> real \<Rightarrow> real \<Rightarrow> real" where
  "calculate_pet_simple ta tr va rh met clo =
     (let pmv = calculate_pmv_simple ta tr va rh met clo
      in 18 + 7 * pmv)"

definition absorption_factors :: "(string \<times> real) list" where
  "absorption_factors =
     [(''urban'', 0.06), (''grass'', 0.02), (''water'', 0.01), (''asphalt'', 0.08),
      (''roof'', 0.07), (''concrete'', 0.065)]"

text \<open>\<open>d.get(key, default)\<close> on a dictionary literal.\<close>

definition dict_get_default :: "('k \<times> 'v) list \<Rightarrow> 'k \<Rightarrow> 'v \<Rightarrow> 'v" where
  "dict_get_default d key dflt = (case map_of d key of None \<Rightarrow> dflt | Some v \<Rightarrow> v)"

definition estimate_mean_radiant_temperature :: "real \<Rightarrow> real \<Rightarrow> string \<Rightarrow> real" where
  "estimate_mean_radiant_temperature ta solar_rad surface =
     (let tmrt = ta;
          solar_factor = dict_get_default absorption_factors surface 0.05;
          radiation_increase = solar_rad * solar_factor / 100;
          tmrt1 = tmrt + radiation_increase
      in if surface \<in> set [''urban'', ''asphalt'', ''concrete'']
         then (let uhi_radiation = min 2.0 (solar_rad / 400) in tmrt1 + uhi_radiation)
         else tmrt1)"

text \<open>
  A zone of \<open>define_urban_zones\<close>. The entries \<open>name\<close>, \<open>description\<close> and
  \<open>characteristics\<close> are display texts that no computation reads; they are left out.
\<close>

record zone =
  z_surface_type :: string
  temp_offset :: real
  wind_reduction :: real
  humidity_offset :: real
  area_percent :: real

definition define_urban_zones :: "(string \<times> zone) list" where
  "define_urban_zones =
     [(''rynek_main'',
         \<lparr> z_surface_type = ''urban'', temp_offset = 3.0, wind_reduction = 0.7,
           humidity_offset = - 5, area_percent = 8 \<rparr>),
      (''street_commercial'',
         \<lparr> z_surface_type = ''asphalt'', temp_offset = 2.5, wind_reduction = 0.5,
           humidity_offset = - 3, area_percent = 25 \<rparr>),
      (''parks_green'',
         \<lparr> z_surface_type = ''grass'', temp_offset = - 2.0, wind_reduction = 0.9,
           humidity_offset = 8, area_percent = 15 \<rparr>),
      (''residential'',
         \<lparr> z_surface_type = ''urban'', temp_offset = 1.0, wind_reduction = 0.8,
           humidity_offset = 0, area_percent = 35 \<rparr>),
      (''open_spaces'',
         \<lparr> z_surface_type = ''concrete'', temp_offset = 2.8, wind_reduction = 1.0,
           humidity_offset = - 8, area_percent = 17 \<rparr>)]"

text \<open>
  The five comfort levels (DOSKONALY, DOBRY, AKCEPTOWALNY, SLABY, NIEAKCEPTOWALNY) and the
  seven recommendation sentences of \<open>calculate_zone_comfort\<close>, the latter named by the
  branch that selects them.
\<close>

datatype thermal_comfort_level = DOSKONALY | DOBRY | AKCEPTOWALNY | SLABY | NIEAKCEPTOWALNY

datatype recommendation =
  Rec_above_2 | Rec_above_1 | Rec_above_half | Rec_below_minus_2 | Rec_below_minus_1
  | Rec_below_minus_half | Rec_optimal

record microclimate =
  air_temp :: real
  mean_radiant_temp :: real
  m_wind_speed :: real
  humidity :: real
  m_surface_type :: string

record comfort_indices =
  pmv :: real
  ppd :: real
  ci_utci :: real
  pet :: real

record zone_assessment =
  comfort_level :: thermal_comfort_level
  za_comfort_score :: int
  za_recommendation :: recommendation
  thermal_stress :: string

record zone_comfort =
  zc_area_percent :: real
  zc_microclimate :: microclimate
  zc_comfort_indices :: comfort_indices
  zc_assessment :: zone_assessment

definition calculate_zone_comfort ::
  "'g runtime \<Rightarrow> zone \<Rightarrow> real \<Rightarrow> real \<Rightarrow> real \<Rightarrow> real \<Rightarrow> real \<Rightarrow> real \<Rightarrow> zone_comfort" where
  "calculate_zone_comfort rt z ta rh va solar_rad met clo =
     (let local_temp = ta + temp_offset z;
          local_humidity = max 20 (min 95 (rh + humidity_offset z));
          local_wind = va * wind_reduction z;
          local_tmrt = estimate_mean_radiant_temperature local_temp solar_rad (z_surface_type z);
          (pmv_value, ppd_value, utci_value) =
            (case pythermalcomfort rt of
               Some lib \<Rightarrow>
                 (let pmv_result = pmv_ppd lib local_temp local_tmrt local_wind local_humidity
                                     met clo
                  in (fst pmv_result, snd pmv_result,
                      utci lib local_temp local_tmrt local_wind local_humidity))
             | None \<Rightarrow>
                 (let p = calculate_pmv_simple local_temp local_tmrt local_wind local_humidity
                            met clo
                  in (p, calculate_ppd_from_pmv p,
                      calculate_utci_simple local_temp local_tmrt local_wind local_humidity)));
          pet_value = calculate_pet_simple local_temp local_tmrt local_wind local_humidity
                        met clo;
          (level, score) =
            (if \<bar>pmv_value\<bar> < 0.5 then (DOSKONALY, 5)
             else if \<bar>pmv_value\<bar> < 1.0 then (DOBRY, 4)
             else if \<bar>pmv_value\<bar> < 1.5 then (AKCEPTOWALNY, 3)
             else if \<bar>pmv_value\<bar> < 2.0 then (SLABY, 2)
             else (NIEAKCEPTOWALNY, 1));
          rec =
            (if 2 < pmv_value then Rec_above_2
             else if 1 < pmv_value then Rec_above_1
             else if 0.5 < pmv_value then Rec_above_half
             else if pmv_value < - 2 then Rec_below_minus_2
             else if pmv_value < - 1 then Rec_below_minus_1
             else if pmv_value < - 0.5 then Rec_below_minus_half
             else Rec_optimal)
      in \<lparr> zc_area_percent = area_percent z,
           zc_microclimate = \<lparr>
             air_temp = py_round local_temp 1,
             mean_radiant_temp = py_round local_tmrt 1,
             m_wind_speed = py_round local_wind 2,
             humidity = py_round local_humidity 1,
             m_surface_type = z_surface_type z \<rparr>,
           zc_comfort_indices = \<lparr>
             pmv = py_round pmv_value 2,
             ppd = py_round ppd_value 1,
             ci_utci = py_round utci_value 1,
             pet = py_round pet_value 1 \<rparr>,
           zc_assessment = \<lparr>
             comfort_level = level,
             za_comfort_score = score,
             za_recommendation = rec,
             thermal_stress =
               (if 1 < pmv_value then ''heat''
                else if pmv_value < - 1 then ''cold'' else ''neutral'') \<rparr> \<rparr>)"

text \<open>\<open>np.var\<close>: the population variance.\<close>

definition np_var :: "real list \<Rightarrow> real" where
  "np_var xs =
     (let n = real (length xs);
          mean = sum_list xs / n
      in sum_list (map (\<lambda>x. (x - mean)\<^sup>2) xs) / n)"

record comfort_point =
  cp_lat :: real
  cp_lng :: real
  cp_pmv :: real
  cp_ppd :: real
  cp_utci :: real
  cp_pet :: real
  zone_type :: string
  surface_temp :: real
  cp_comfort_score :: real
  microenvironment :: string

text \<open>
  \<open>for i in range(n)\<close> with a body that can raise: the points collected so far are lost
  with the exception, the generator keeps the state it had reached.
\<close>

fun for_range_raising ::
  "(nat \<Rightarrow> 'g \<Rightarrow> (py_error + 'a) \<times> 'g) \<Rightarrow> nat \<Rightarrow> nat \<Rightarrow> 'g \<Rightarrow> (py_error + 'a list) \<times> 'g" where
  "for_range_raising body i 0 g = (Inr [], g)"
| "for_range_raising body i (Suc k) g =
     (case body i g of
        (Inl e, g1) \<Rightarrow> (Inl e, g1)
      | (Inr x, g1) \<Rightarrow>
         (case for_range_raising body (Suc i) k g1 of
            (Inl e, g2) \<Rightarrow> (Inl e, g2)
          | (Inr xs, g2) \<Rightarrow> (Inr (x # xs), g2)))"

text \<open>One pass of the loop body of \<open>generate_comfort_points\<close>.\<close>

definition comfort_point_at ::
  "'g runtime \<Rightarrow> thermal_simulator \<Rightarrow> (string \<times> zone_comfort) list \<Rightarrow> string list
     \<Rightarrow> real list \<Rightarrow> nat \<Rightarrow> 'g \<Rightarrow> (py_error + comfort_point) \<times> 'g" where
  "comfort_point_at rt sim zones_results zone_list zone_weights i g =
     (case np_normal rt 0 0.008 g of (n1, g1) \<Rightarrow>
      case np_normal rt 0 0.012 g1 of (n2, g2) \<Rightarrow>
      case np_choice rt zone_list zone_weights g2 of (zone_choice, g3) \<Rightarrow>
      case dict_get (map_of zones_results) zone_choice of
        Inl e \<Rightarrow> (Inl e, g3)
      | Inr zone_data \<Rightarrow>
     (case np_normal rt 0 0.3 g3 of (local_pmv_variation, g4) \<Rightarrow>
      case np_normal rt 0 2.0 g4 of (local_utci_variation, g5) \<Rightarrow>
      case np_normal rt 0 2.5 g5 of (local_pet_variation, g6) \<Rightarrow>
      case np_normal rt 0 3 g6 of (surface_variation, g7) \<Rightarrow>
        (let lat = t_center_lat sim + n1;
             lng = t_center_lng sim + n2;
             base_pmv = pmv (zc_comfort_indices zone_data);
             local_pmv = min 3 (max (- 3) (base_pmv + local_pmv_variation));
             base_utci = ci_utci (zc_comfort_indices zone_data);
             local_utci = base_utci + local_utci_variation;
             base_pet = pet (zc_comfort_indices zone_data);
             local_pet = base_pet + local_pet_variation;
             base_surface_temp = mean_radiant_temp (zc_microclimate zone_data);
             surface = base_surface_temp + surface_variation
         in (Inr \<lparr> cp_lat = py_round lat 6, cp_lng = py_round lng 6,
                    cp_pmv = py_round local_pmv 2,
                    cp_ppd = py_round (calculate_ppd_from_pmv local_pmv) 1,
                    cp_utci = py_round local_utci 1, cp_pet = py_round local_pet 1,
                    zone_type = zone_choice, surface_temp = py_round surface 1,
                    cp_comfort_score = max 1 (min 5 (py_round (5 - \<bar>local_pmv\<bar>) 0)),
                    microenvironment = m_surface_type (zc_microclimate zone_data) \<rparr>, g7))))"

definition generate_comfort_points ::
  "'g runtime \<Rightarrow> thermal_simulator \<Rightarrow> string \<Rightarrow> (string \<times> zone_comfort) list \<Rightarrow> real \<Rightarrow> 'g
     \<Rightarrow> (py_error + comfort_point list) \<times> 'g" where
  "generate_comfort_points rt sim scenario_name zones_results overall_comfort g =
     (let seed_value =
            nat (\<bar>py_hash rt scenario_name + py_int (overall_comfort * 1000)\<bar> mod 2 ^ 31);
          g0 = np_seed rt seed_value;
          comfort_variance = np_var (map (\<lambda>(k, z). pmv (zc_comfort_indices z)) zones_results);
          num_points = min 80 (max 30 (py_int (comfort_variance * 50 + 40)));
          zone_list = map fst zones_results;
          zone_weights = map (\<lambda>(k, z). zc_area_percent z / 100) zones_results
      in for_range_raising (comfort_point_at rt sim zones_results zone_list zone_weights) 0
           (nat num_points) g0)"

definition classify_thermal_stress :: "real \<Rightarrow> string" where
  "classify_thermal_stress ta =
     (if ta < - 10 then ''extreme_cold''
      else if ta < 0 then ''cold''
      else if ta < 18 then ''cool''
      else if ta < 26 then ''comfortable''
      else if ta < 32 then ''warm''
      else if ta < 38 then ''hot''
      else ''extreme_heat'')"

definition clothing_values :: "(string \<times> real) list" where
  "clothing_values = [(''winter'', 2.0), (''spring'', 0.8), (''summer'', 0.4), (''autumn'', 1.0)]"

definition activity_values :: "(string \<times> real) list" where
  "activity_values = [(''winter'', 1.4), (''spring'', 1.2), (''summer'', 1.0), (''autumn'', 1.3)]"

record thermal_parameters =
  air_temperature :: real
  relative_humidity :: real
  tp_wind_speed :: real
  solar_radiation :: real
  clothing_insulation_clo :: real
  metabolic_rate_met :: real
  season :: string

record environmental_conditions =
  thermal_stress_category :: string
  humidity_comfort :: string
  wind_comfort :: string
  solar_load :: string

record overall_metrics =
  city_comfort_score :: real
  om_comfort_zones_percent :: real
  heat_stress_zones :: nat
  cold_stress_zones :: nat
  uhi_effect_estimated :: real

record thermal_visualization =
  tv_center_lat :: real
  tv_center_lng :: real
  tv_zoom_level :: int
  tv_color_scale :: string
  legend_title :: string

record thermal_result =
  t_scenario_name :: string
  t_module :: string
  t_model_version :: string
  t_computation_time :: string
  t_parameters :: thermal_parameters
  t_environmental_conditions :: environmental_conditions
  t_overall_metrics :: overall_metrics
  zone_analysis :: "(string \<times> zone_comfort) list"
  comfort_map :: "comfort_point list option"
  t_visualization :: "thermal_visualization option"

text \<open>
  The loop of \<open>simulate_scenario\<close> over the zones, in the order of the dictionary: the
  per-zone results and the area-weighted sum of the comfort scores.
\<close>

fun zones_loop ::
  "'g runtime \<Rightarrow> real \<Rightarrow> real \<Rightarrow> real \<Rightarrow> real \<Rightarrow> real \<Rightarrow> real \<Rightarrow> (string \<times> zone) list
     \<Rightarrow> (string \<times> zone_comfort) list \<times> real \<Rightarrow> (string \<times> zone_comfort) list \<times> real" where
  "zones_loop rt ta rh va solar_rad met clo [] acc = acc"
| "zones_loop rt ta rh va solar_rad met clo ((zid, z) # rest) (zone_results, overall) =
     (let zc = calculate_zone_comfort rt z ta rh va solar_rad met clo;
          zone_contribution = of_int (za_comfort_score (zc_assessment zc)) * area_percent z / 100
      in zones_loop rt ta rh va solar_rad met clo rest
           (zone_results @ [(zid, zc)], overall + zone_contribution))"

definition thermal_simulate_scenario ::
  "'g runtime \<Rightarrow> thermal_simulator \<Rightarrow> real \<Rightarrow> real \<Rightarrow> real \<Rightarrow> real \<Rightarrow> string \<Rightarrow> string \<Rightarrow> bool
     \<Rightarrow> string \<Rightarrow> 'g \<Rightarrow> (py_error + thermal_result) \<times> 'g" where
  "thermal_simulate_scenario rt sim ta rh va solar_rad scenario_name season_arg detailed_output
       now g =
     (let clo = dict_get_default clothing_values season_arg 0.7;
          met = dict_get_default activity_values season_arg 1.2;
          urban_zones = define_urban_zones
      in case zones_loop rt ta rh va solar_rad met clo urban_zones ([], 0) of
           (zone_results, overall_comfort_score) \<Rightarrow>
        if length zone_results = 0 then (Inl ZeroDivisionError, g)
        else
         (let comfortable_zones_count =
                length (filter (\<lambda>(k, z). \<bar>pmv (zc_comfort_indices z)\<bar> < 1.0) zone_results);
              comfortable_zones_percent =
                real comfortable_zones_count / real (length zone_results) * 100;
              heat = length (filter (\<lambda>(k, z). 2 < pmv (zc_comfort_indices z)) zone_results);
              cold = length (filter (\<lambda>(k, z). pmv (zc_comfort_indices z) < - 2) zone_results)
          in case (if detailed_output
                   then generate_comfort_points rt sim scenario_name zone_results
                          overall_comfort_score g
                   else (Inr [], g)) of
               (Inl e, g1) \<Rightarrow> (Inl e, g1)
             | (Inr comfort_points, g1) \<Rightarrow>
                (let result = \<lparr>
                       t_scenario_name = scenario_name,
                       t_module = ''ThermalSim'',
                       t_model_version = ''ThermalSim_v1.6_PMV_UTCI_PET'',
                       t_computation_time = now,
                       t_parameters = \<lparr>
                         air_temperature = ta,
                         relative_humidity = rh,
                         tp_wind_speed = va,
                         solar_radiation = solar_rad,
                         clothing_insulation_clo = clo,
                         metabolic_rate_met = met,
                         season = season_arg \<rparr>,
                       t_environmental_conditions = \<lparr>
                         thermal_stress_category = classify_thermal_stress ta,
                         humidity_comfort =
                           (if 40 \<le> rh \<and> rh \<le> 60 then ''optimal'' else ''suboptimal''),
                         wind_comfort =
                           (if 0.5 \<le> va \<and> va \<le> 2.0 then ''optimal'' else ''suboptimal''),
                         solar_load =
                           (if solar_rad < 200 then ''low''
                            else if solar_rad < 600 then ''moderate'' else ''high'') \<rparr>,
                       t_overall_metrics = \<lparr>
                         city_comfort_score = py_round overall_comfort_score 2,
                         om_comfort_zones_percent = py_round comfortable_zones_percent 1,
                         heat_stress_zones = heat,
                         cold_stress_zones = cold,
                         uhi_effect_estimated = py_round (max 0 (ta - 20) * 0.15) 1 \<rparr>,
                       zone_analysis = zone_results,
                       comfort_map = None,
                       t_visualization = None \<rparr>
                 in if detailed_output
                    then (Inr (result \<lparr> comfort_map := Some comfort_points,
                                 t_visualization := Some \<lparr>
                                   tv_center_lat = t_center_lat sim,
                                   tv_center_lng = t_center_lng sim,
                                   tv_zoom_level = 14, tv_color_scale = ''RdYlBu_r'',
                                   legend_title = ''PMV Comfort Scale'' \<rparr> \<rparr>), g1)
                    else (Inr result, g1))))"

section \<open>The vertical profile in double arithmetic\<close>

text \<open>
  Rounding to the nearest double, ties to even: 53 significant bits, with an unbounded
  exponent (no overflow to infinity, no subnormal numbers).
\<close>

definition fl :: "real \<Rightarrow> real" where
  "fl x =
     (if x = 0 then 0
      else (let q = 2 powr (of_int \<lfloor>log 2 \<bar>x\<bar>\<rfloor> - 52)
            in of_int (round_half_even (x / q)) * q))"

text \<open>
  \<open>calculate_wind_profile\<close> once more, with the result of every arithmetic operation
  rounded. The fields of the simulator hold the decimal literals of the source, \<open>fl\<close> gives
  the doubles they denote; \<open>np_log\<close> is numpy's logarithm on doubles.
\<close>

definition calculate_wind_profile_ieee ::
  "(real \<Rightarrow> real) \<Rightarrow> wind_simulator \<Rightarrow> real \<Rightarrow> real \<Rightarrow> real option \<Rightarrow> real option
     \<Rightarrow> py_error + real" where
  "calculate_wind_profile_ieee np_log sim height u_ref z_ref_arg z0_arg =
     (let z_ref = (case z_ref_arg of None \<Rightarrow> fl (reference_height sim) | Some z \<Rightarrow> z);
          z0 = (case z0_arg of None \<Rightarrow> fl (surface_roughness sim) | Some z \<Rightarrow> z);
          height = (if height \<le> z0 then fl (z0 + fl 0.1) else height)
      in if z0 = 0 then Inl ZeroDivisionError
         else
           (let wind_speed = fl (fl (u_ref * np_log (fl (fl (height + z0) / z0)))
                                   / np_log (fl (fl (z_ref + z0) / z0)))
            in Inr (max 0 wind_speed)))"

text \<open>
  The logarithm of a double as the reference platform returns it: the correctly rounded
  natural logarithm. At 34.333333333333336 (0x1.12aaaaaaaaaabp+5), the one argument the
  profile at the reference height takes it at, the returned double 3.5361166995615263
  (0x1.c49f78d5ba653p+1) is written out.
\<close>

definition np_log_reference :: "real \<Rightarrow> real" where
  "np_log_reference x =
     (if x = 4831987100199595 / 140737488355328
      then 7962626925241939 / 2251799813685248
      else fl (ln x))"

section \<open>The directional factor as the specification words it\<close>

text \<open>
  Not taken from the source: the distance of a direction to a street axis with directions
  understood modulo 360 degrees, and the factor read off the nearest axis (within 15
  degrees 1.15, within 30 degrees 1.05, otherwise 0.9).
\<close>

definition angular_distance :: "real \<Rightarrow> real \<Rightarrow> real" where
  "angular_distance a b = (let d = py_fmod (a - b) 360 in min d (360 - d))"

definition directional_factor_spec :: "real \<Rightarrow> real" where
  "directional_factor_spec d =
     (let nearest = min_list (map (angular_distance d) main_street_directions)
      in if nearest \<le> 15 then 1.15
         else if nearest \<le> 30 then 1.05
         else 0.9)"

section \<open>Fixtures\<close>

text \<open>
  The configuration of the modules' own usage examples, the simulators constructed from
  it, and a small deterministic stand-in for the interpreter and numpy at which the
  general statements are instantiated.
\<close>

definition test_config :: config where
  "test_config =
     [''location'' \<mapsto> [''center_lat'' \<mapsto> 54.10, ''center_lng'' \<mapsto> 22.95,
                       ''area_km2'' \<mapsto> 5.0, ''elevation_avg'' \<mapsto> 163.0]]"

definition test_flood_sim :: flood_simulator where
  "test_flood_sim = projr (FloodSimulator_init test_config)"

definition demo_runtime :: "nat runtime" where
  "demo_runtime =
     \<lparr> py_hash = (\<lambda>s. int (length s)),
       np_seed = (\<lambda>n. n),
       np_normal = (\<lambda>mu sigma g. (mu + sigma * (real (g mod 5) - 2) / 2, Suc g)),
       np_exponential = (\<lambda>scale g. (scale * real (g mod 4) / 2, Suc g)),
       np_uniform = (\<lambda>lo hi g. (lo + (hi - lo) * real (g mod 8) / 8, Suc g)),
       np_choice = (\<lambda>xs p g. (xs ! (g mod length xs), Suc g)),
       pythermalcomfort = None \<rparr>"

definition test_wind_sim :: wind_simulator where
  "test_wind_sim = projr (WindSimulator_init test_config)"

definition test_thermal_sim :: thermal_simulator where
  "test_thermal_sim = projr (ThermalComfortSimulator_init test_config)"

text \<open>A second run of the interpreter: the same stand-in with another string hash.\<close>

definition demo_runtime_resalted :: "nat runtime" where
  "demo_runtime_resalted = demo_runtime \<lparr> py_hash := (\<lambda>s. int (length s) + 1) \<rparr>"

section \<open>Properties of the flood simulator\<close>

lemma test_flood_sim_init: "FloodSimulator_init test_config = Inr test_flood_sim"
  by (simp add: test_flood_sim_def FloodSimulator_init_def config_location_def dict_get_def
        test_config_def)

lemma test_config_centre:
  "config_location test_config ''center_lat'' = Inr 54.10"
  "config_location test_config ''center_lng'' = Inr 22.95"
  by (simp_all add: config_location_def dict_get_def test_config_def)

lemma py_round_zero: "py_round 0 n = 0"
  by (simp add: py_round_def round_half_even_def)

lemma FloodSimulator_init_fields:
  assumes "FloodSimulator_init cfg = Inr sim"
  shows "f_config sim = cfg" "infiltration_rate sim = 8" "drainage_capacity sim = 40"
        "runoff_coefficient sim = 0.75" "urban_coverage sim = 0.25"
        "max_flow_velocity sim = 5" "manning_n sim = 0.035"
  using assms by (auto simp: FloodSimulator_init_def split: sum.splits)

lemma py_index_risk_levels:
  "py_index risk_levels (assess_flood_risk d) =
     Inr (if d < 0.05 then 0 else if d < 0.15 then 1 else if d < 0.40 then 2
          else if d < 0.80 then 3 else 4)"
  by (simp add: py_index_def risk_levels_def assess_flood_risk_def)

lemma generate_flood_zones_returns:
  assumes "config_location (f_config sim) ''center_lat'' = Inr clat"
      and "config_location (f_config sim) ''center_lng'' = Inr clng"
  shows "\<exists>zones g1. generate_flood_zones rt sim name md pct g = (Inr zones, g1)"
  using assms by (simp add: generate_flood_zones_def Let_def split: prod.splits)

lemma flood_simulate_scenario_returns:
  assumes "config_location (f_config sim) ''center_lat'' = Inr clat"
      and "config_location (f_config sim) ''center_lng'' = Inr clng"
  shows "\<exists>res g1. flood_simulate_scenario rt sim r d name detailed now g = (Inr res, g1)
           \<and> max_depth_m (f_metrics res) = py_round (max_depth_of sim r d) 3
           \<and> flooded_area_percent (f_metrics res) = py_round (flooded_area_pct_of sim r d) 1
           \<and> risk_level (f_metrics res) = assess_flood_risk (max_depth_of sim r d)
           \<and> py_index risk_levels (risk_level (f_metrics res)) = Inr (risk_score (f_metrics res) - 1)
           \<and> 0 < risk_score (f_metrics res)
           \<and> flooded_area_km2 (f_metrics res)
                 = py_round (flooded_area_pct_of sim r d / 100 * f_area_km2 sim) 4
           \<and> effective_rainfall_mm (f_parameters res)
                 = fst (calculate_effective_rainfall sim r d) * d
           \<and> excess_rainfall_mm (f_parameters res)
                 = fst (snd (calculate_effective_rainfall sim r d)) * d"
proof -
  obtain eff exc tot where e: "calculate_effective_rainfall sim r d = (eff, exc, tot)"
    by (cases "calculate_effective_rainfall sim r d") auto
  obtain md pct where dp: "calculate_flood_depths tot = (md, pct)"
    by (cases "calculate_flood_depths tot") auto
  have len: "length risk_levels = 5" by (simp add: risk_levels_def)
  show ?thesis
  proof (cases detailed)
    case True
    obtain zones g1 where z: "generate_flood_zones rt sim name md pct g = (Inr zones, g1)"
      using generate_flood_zones_returns[OF assms, of rt name md pct g] by auto
    show ?thesis
      using assms e dp z True
      by (simp add: flood_simulate_scenario_def Let_def py_index_risk_levels len
            max_depth_of_def flooded_area_pct_of_def total_excess_of_def)
  next
    case False
    show ?thesis
      using e dp False
      by (simp add: flood_simulate_scenario_def Let_def py_index_risk_levels len
            max_depth_of_def flooded_area_pct_of_def total_excess_of_def)
  qed
qed

text \<open>
  C2. For rainfall 65 mm/h over 2 h the simulation computes effective rainfall 57, excess 17
  and total excess 25.5, a maximum depth of min(25.5/100 * 0.8, 3.0) = 0.204 m, and the risk
  level UMIARKOWANE (moderate), the third of the five bands; the assembled result reports
  these values.
\<close>

theorem flood_example_65_2:
  assumes "FloodSimulator_init cfg = Inr sim"
      and "config_location cfg ''center_lat'' = Inr clat"
      and "config_location cfg ''center_lng'' = Inr clng"
  shows "calculate_effective_rainfall sim 65 2 = (57, 17, 25.5)
       \<and> calculate_flood_depths 25.5 = (min (25.5 / 100 * 0.8) 3.0, 30.6)
       \<and> min (25.5 / 100 * 0.8) 3.0 = (0.204 :: real)
       \<and> assess_flood_risk 0.204 = ''UMIARKOWANE''
       \<and> risk_levels ! 2 = ''UMIARKOWANE'' \<and> length risk_levels = 5
       \<and> (\<exists>res g1.
             flood_simulate_scenario rt sim 65 2 name detailed now g = (Inr res, g1)
           \<and> effective_rainfall_mm (f_parameters res) = 57 * 2
           \<and> excess_rainfall_mm (f_parameters res) = 17 * 2
           \<and> max_depth_m (f_metrics res) = 0.204
           \<and> risk_level (f_metrics res) = ''UMIARKOWANE''
           \<and> risk_score (f_metrics res) = 3)"
proof -
  note f = FloodSimulator_init_fields[OF assms(1)]
  have e: "calculate_effective_rainfall sim 65 2 = (57, 17, 25.5)"
    by (simp add: calculate_effective_rainfall_def f)
  have dp: "calculate_flood_depths 25.5 = (0.204, 30.6)"
    by (simp add: calculate_flood_depths_def)
  have md: "max_depth_of sim 65 2 = 0.204"
    by (simp add: max_depth_of_def total_excess_of_def e calculate_flood_depths_def)
  have rd: "py_round 0.204 3 = 0.204"
    by (simp add: py_round_def round_half_even_def)
  have risk: "assess_flood_risk 0.204 = ''UMIARKOWANE''"
    by (simp add: assess_flood_risk_def risk_levels_def)
  have c: "config_location (f_config sim) ''center_lat'' = Inr clat"
          "config_location (f_config sim) ''center_lng'' = Inr clng"
    using assms f by simp_all
  obtain res g1 where r:
    "flood_simulate_scenario rt sim 65 2 name detailed now g = (Inr res, g1)"
    "max_depth_m (f_metrics res) = py_round (max_depth_of sim 65 2) 3"
    "risk_level (f_metrics res) = assess_flood_risk (max_depth_of sim 65 2)"
    "py_index risk_levels (risk_level (f_metrics res)) = Inr (risk_score (f_metrics res) - 1)"
    "0 < risk_score (f_metrics res)"
    "effective_rainfall_mm (f_parameters res) = fst (calculate_effective_rainfall sim 65 2) * 2"
    "excess_rainfall_mm (f_parameters res) = fst (snd (calculate_effective_rainfall sim 65 2)) * 2"
    using flood_simulate_scenario_returns[OF c, of rt 65 2 name detailed now g] by auto
  have "py_index risk_levels ''UMIARKOWANE'' = Inr 2"
    by (simp add: py_index_def risk_levels_def)
  with r(3,4,5) md risk have score: "risk_score (f_metrics res) = 3" by simp
  show ?thesis
    using e dp r(1,2,3,6,7) md rd risk score by (simp add: risk_levels_def)
qed

theorem flood_example_65_2_witness:
  "FloodSimulator_init test_config = Inr test_flood_sim
   \<and> (\<exists>res g1.
         flood_simulate_scenario demo_runtime test_flood_sim 65 2 ''Test intensywny deszcz''
           True ''2025-09-01T12:00:00'' 0 = (Inr res, g1)
       \<and> max_depth_m (f_metrics res) = 0.204
       \<and> risk_level (f_metrics res) = ''UMIARKOWANE'')"
  using flood_example_65_2[OF test_flood_sim_init test_config_centre,
          of demo_runtime "''Test intensywny deszcz''" True "''2025-09-01T12:00:00''" 0]
        test_flood_sim_init
  by auto

lemma excess_zero:
  assumes "r \<le> infiltration_rate sim + drainage_capacity sim" "0 \<le> drainage_capacity sim"
  shows "fst (snd (calculate_effective_rainfall sim r d)) = 0"
  using assms by (simp add: calculate_effective_rainfall_def Let_def max_def)

lemma total_excess_zero:
  assumes "r \<le> infiltration_rate sim + drainage_capacity sim" "0 \<le> drainage_capacity sim"
  shows "total_excess_of sim r d = 0"
  using assms by (simp add: total_excess_of_def calculate_effective_rainfall_def Let_def max_def)

text \<open>
  C3. A rainfall intensity of at most infiltration rate (8) plus drainage capacity (40)
  gives, for every duration, total excess 0, maximum depth 0, flooded share 0 and the risk
  level MINIMALNE (minimal), the lowest band.
\<close>

theorem flood_zero_excess_boundary:
  assumes "FloodSimulator_init cfg = Inr sim"
      and "config_location cfg ''center_lat'' = Inr clat"
      and "config_location cfg ''center_lng'' = Inr clng"
      and "r \<le> infiltration_rate sim + drainage_capacity sim"
  shows "infiltration_rate sim = 8 \<and> drainage_capacity sim = 40
       \<and> snd (snd (calculate_effective_rainfall sim r d)) = 0
       \<and> calculate_flood_depths (snd (snd (calculate_effective_rainfall sim r d))) = (0, 0)
       \<and> assess_flood_risk 0 = ''MINIMALNE'' \<and> risk_levels ! 0 = ''MINIMALNE''
       \<and> (\<exists>res g1.
             flood_simulate_scenario rt sim r d name detailed now g = (Inr res, g1)
           \<and> excess_rainfall_mm (f_parameters res) = 0
           \<and> max_depth_m (f_metrics res) = 0
           \<and> flooded_area_percent (f_metrics res) = 0
           \<and> flooded_area_km2 (f_metrics res) = 0
           \<and> risk_level (f_metrics res) = ''MINIMALNE''
           \<and> risk_score (f_metrics res) = 1)"
proof -
  note f = FloodSimulator_init_fields[OF assms(1)]
  have dc: "0 \<le> drainage_capacity sim" using f by simp
  have t: "total_excess_of sim r d = 0" by (rule total_excess_zero[OF assms(4) dc])
  have x: "fst (snd (calculate_effective_rainfall sim r d)) = 0"
    by (rule excess_zero[OF assms(4) dc])
  have md: "max_depth_of sim r d = 0" and pct: "flooded_area_pct_of sim r d = 0"
    by (simp_all add: max_depth_of_def flooded_area_pct_of_def t calculate_flood_depths_def)
  have risk: "assess_flood_risk 0 = ''MINIMALNE''"
    by (simp add: assess_flood_risk_def risk_levels_def)
  have c: "config_location (f_config sim) ''center_lat'' = Inr clat"
          "config_location (f_config sim) ''center_lng'' = Inr clng"
    using assms f by simp_all
  obtain res g1 where r:
    "flood_simulate_scenario rt sim r d name detailed now g = (Inr res, g1)"
    "max_depth_m (f_metrics res) = py_round (max_depth_of sim r d) 3"
    "flooded_area_percent (f_metrics res) = py_round (flooded_area_pct_of sim r d) 1"
    "risk_level (f_metrics res) = assess_flood_risk (max_depth_of sim r d)"
    "py_index risk_levels (risk_level (f_metrics res)) = Inr (risk_score (f_metrics res) - 1)"
    "0 < risk_score (f_metrics res)"
    "flooded_area_km2 (f_metrics res)
       = py_round (flooded_area_pct_of sim r d / 100 * f_area_km2 sim) 4"
    "excess_rainfall_mm (f_parameters res) = fst (snd (calculate_effective_rainfall sim r d)) * d"
    using flood_simulate_scenario_returns[OF c, of rt r d name detailed now g] by auto
  have "py_index risk_levels ''MINIMALNE'' = Inr 0"
    by (simp add: py_index_def risk_levels_def)
  with r(4,5,6) md risk have score: "risk_score (f_metrics res) = 1" by simp
  have d0: "calculate_flood_depths (snd (snd (calculate_effective_rainfall sim r d))) = (0, 0)"
    using t by (simp add: total_excess_of_def calculate_flood_depths_def)
  show ?thesis
    using f t d0 x r md pct risk score
    by (simp add: py_round_zero total_excess_of_def risk_levels_def)
qed

theorem flood_zero_excess_boundary_witness:
  "(5::real) \<le> infiltration_rate test_flood_sim + drainage_capacity test_flood_sim
   \<and> snd (snd (calculate_effective_rainfall test_flood_sim 5 1)) = 0
   \<and> (\<exists>res g1.
         flood_simulate_scenario demo_runtime test_flood_sim 5 1 ''Lekki deszcz''
           True ''2025-09-01T12:00:00'' 0 = (Inr res, g1)
       \<and> max_depth_m (f_metrics res) = 0
       \<and> flooded_area_percent (f_metrics res) = 0
       \<and> risk_level (f_metrics res) = ''MINIMALNE'')"
proof -
  have h: "(5::real) \<le> infiltration_rate test_flood_sim + drainage_capacity test_flood_sim"
    using FloodSimulator_init_fields[OF test_flood_sim_init] by simp
  show ?thesis
    using h flood_zero_excess_boundary[OF test_flood_sim_init test_config_centre h,
            of 1 demo_runtime "''Lekki deszcz''" True "''2025-09-01T12:00:00''" 0]
    by auto
qed

lemma excess_mono:
  assumes "r1 \<le> r2"
  shows "fst (snd (calculate_effective_rainfall sim r1 d))
           \<le> fst (snd (calculate_effective_rainfall sim r2 d))"
    and "0 \<le> fst (snd (calculate_effective_rainfall sim r1 d))"
  using assms by (auto simp: calculate_effective_rainfall_def Let_def max_def)

lemma total_excess_of_eq:
  "total_excess_of sim r d
     = fst (snd (calculate_effective_rainfall sim r d)) * d * runoff_coefficient sim"
  by (simp add: total_excess_of_def calculate_effective_rainfall_def Let_def)

lemma excess_indep_duration:
  "fst (snd (calculate_effective_rainfall sim r d1))
     = fst (snd (calculate_effective_rainfall sim r d2))"
  by (simp add: calculate_effective_rainfall_def Let_def)

lemma calculate_flood_depths_mono:
  assumes "t1 \<le> t2"
  shows "fst (calculate_flood_depths t1) \<le> fst (calculate_flood_depths t2)"
    and "snd (calculate_flood_depths t1) \<le> snd (calculate_flood_depths t2)"
  using assms by (auto simp: calculate_flood_depths_def Let_def min_def)

lemma calculate_flood_depths_nonpos:
  "t \<le> 0 \<Longrightarrow> calculate_flood_depths t = (0, 0)"
  by (simp add: calculate_flood_depths_def)

lemma total_excess_mono_rain:
  assumes "r1 \<le> r2" "0 \<le> d" "0 \<le> runoff_coefficient sim"
  shows "total_excess_of sim r1 d \<le> total_excess_of sim r2 d"
proof -
  have "fst (snd (calculate_effective_rainfall sim r1 d)) * d
          \<le> fst (snd (calculate_effective_rainfall sim r2 d)) * d"
    using excess_mono(1)[OF assms(1)] assms(2) by (rule mult_right_mono)
  then show ?thesis
    unfolding total_excess_of_eq using assms(3) by (rule mult_right_mono)
qed

lemma total_excess_nonpos_duration:
  assumes "d \<le> 0" "0 \<le> runoff_coefficient sim"
  shows "total_excess_of sim r d \<le> 0"
proof -
  have "0 \<le> fst (snd (calculate_effective_rainfall sim r d))"
    using excess_mono(2)[of r r] by simp
  then have "fst (snd (calculate_effective_rainfall sim r d)) * d \<le> 0"
    using assms(1) by (simp add: mult_nonneg_nonpos)
  then show ?thesis
    unfolding total_excess_of_eq using assms(2) by (simp add: mult_nonpos_nonneg)
qed

lemma total_excess_mono_duration:
  assumes "d1 \<le> d2" "0 \<le> runoff_coefficient sim"
  shows "total_excess_of sim r d1 \<le> total_excess_of sim r d2"
proof -
  have "0 \<le> fst (snd (calculate_effective_rainfall sim r d1))"
    using excess_mono(2)[of r r] by simp
  then have "fst (snd (calculate_effective_rainfall sim r d1)) * d1
          \<le> fst (snd (calculate_effective_rainfall sim r d1)) * d2"
    using assms(1) by (simp add: mult_left_mono)
  then show ?thesis
    unfolding total_excess_of_eq excess_indep_duration[of sim r d2 d1]
    using assms(2) by (rule mult_right_mono)
qed

text \<open>
  C4, as amended. Total excess is non-decreasing in the rainfall intensity for every
  duration that is not negative; maximum depth and flooded share are non-decreasing in the
  rainfall intensity for every duration; all three are non-decreasing in the duration; and
  zero rainfall gives zero excess.
\<close>

theorem flood_monotone:
  assumes "FloodSimulator_init cfg = Inr sim"
  shows "(r1 \<le> r2 \<and> 0 \<le> d \<longrightarrow> total_excess_of sim r1 d \<le> total_excess_of sim r2 d)
       \<and> (r1 \<le> r2 \<longrightarrow> max_depth_of sim r1 d \<le> max_depth_of sim r2 d
                     \<and> flooded_area_pct_of sim r1 d \<le> flooded_area_pct_of sim r2 d)
       \<and> (d1 \<le> d2 \<longrightarrow> total_excess_of sim r d1 \<le> total_excess_of sim r d2
                     \<and> max_depth_of sim r d1 \<le> max_depth_of sim r d2
                     \<and> flooded_area_pct_of sim r d1 \<le> flooded_area_pct_of sim r d2)
       \<and> fst (snd (calculate_effective_rainfall sim 0 d)) = 0
       \<and> total_excess_of sim 0 d = 0"
proof -
  note f = FloodSimulator_init_fields[OF assms]
  have rc: "0 \<le> runoff_coefficient sim" using f by simp
  have a: "total_excess_of sim r1 d \<le> total_excess_of sim r2 d" if "r1 \<le> r2" "0 \<le> d"
    using that rc by (rule total_excess_mono_rain)
  have b: "max_depth_of sim r1 d \<le> max_depth_of sim r2 d
         \<and> flooded_area_pct_of sim r1 d \<le> flooded_area_pct_of sim r2 d" if le: "r1 \<le> r2"
  proof (cases "0 \<le> d")
    case True
    from a[OF le True] show ?thesis
      by (simp add: max_depth_of_def flooded_area_pct_of_def calculate_flood_depths_mono)
  next
    case False
    then have "d \<le> 0" by simp
    then have "total_excess_of sim r1 d \<le> 0" "total_excess_of sim r2 d \<le> 0"
      using rc by (simp_all add: total_excess_nonpos_duration)
    then show ?thesis
      by (simp add: max_depth_of_def flooded_area_pct_of_def calculate_flood_depths_nonpos)
  qed
  have c: "total_excess_of sim r d1 \<le> total_excess_of sim r d2
         \<and> max_depth_of sim r d1 \<le> max_depth_of sim r d2
         \<and> flooded_area_pct_of sim r d1 \<le> flooded_area_pct_of sim r d2" if le: "d1 \<le> d2"
    using total_excess_mono_duration[OF le rc, of r]
    by (simp add: max_depth_of_def flooded_area_pct_of_def calculate_flood_depths_mono)
  have z: "fst (snd (calculate_effective_rainfall sim 0 d)) = 0"
    using f by (simp add: calculate_effective_rainfall_def Let_def)
  have z2: "total_excess_of sim 0 d = 0"
    using z by (simp add: total_excess_of_eq)
  show ?thesis using a b c z z2 by blast
qed

theorem flood_monotone_witness:
  "total_excess_of test_flood_sim 15 2 \<le> total_excess_of test_flood_sim 65 2
   \<and> max_depth_of test_flood_sim 15 2 \<le> max_depth_of test_flood_sim 65 2
   \<and> flooded_area_pct_of test_flood_sim 15 2 \<le> flooded_area_pct_of test_flood_sim 65 2
   \<and> total_excess_of test_flood_sim 65 1 \<le> total_excess_of test_flood_sim 65 2
   \<and> max_depth_of test_flood_sim 65 1 \<le> max_depth_of test_flood_sim 65 2
   \<and> flooded_area_pct_of test_flood_sim 65 1 \<le> flooded_area_pct_of test_flood_sim 65 2"
  using flood_monotone[OF test_flood_sim_init, of 15 65 2 1 2 65]
  by simp

text \<open>
  With the duration -1 the total excess falls from 0 to -7.5 when the rainfall intensity
  rises from 48 to 58.
\<close>

theorem flood_monotone_negative_duration_counterexample:
  "FloodSimulator_init test_config = Inr test_flood_sim
   \<and> (48::real) \<le> 58
   \<and> total_excess_of test_flood_sim 48 (- 1) = 0
   \<and> total_excess_of test_flood_sim 58 (- 1) = - 7.5
   \<and> \<not> total_excess_of test_flood_sim 48 (- 1) \<le> total_excess_of test_flood_sim 58 (- 1)"
  using FloodSimulator_init_fields[OF test_flood_sim_init] test_flood_sim_init
  by (simp add: total_excess_of_def calculate_effective_rainfall_def Let_def)

section \<open>Properties of the wind simulator\<close>

lemma test_wind_sim_init: "WindSimulator_init test_config = Inr test_wind_sim"
  by (simp add: test_wind_sim_def WindSimulator_init_def config_location_def dict_get_def
        test_config_def)

lemma WindSimulator_init_fields:
  assumes "WindSimulator_init cfg = Inr sim"
  shows "building_density sim = 0.25" "surface_roughness sim = 0.3"
        "reference_height sim = 10" "pedestrian_height sim = 1.5"
        "tunnel_amplification sim = 0.8" "wake_reduction sim = 0.3"
        "green_area_reduction sim = 0.4" "air_density sim = 1.225"
  using assms by (auto simp: WindSimulator_init_def split: sum.splits)

lemma directional_factor_values:
  "calculate_directional_factor d \<in> {1.15, 1.05, 0.9}"
  by (simp add: calculate_directional_factor_def Let_def)

lemma directional_factor_pos: "0 < calculate_directional_factor d"
  by (simp add: calculate_directional_factor_def Let_def)

text \<open>
  Where the computed factor and the factor by angular distance part: on the compass range
  from 0 up to 330 degrees they coincide, from 330 up to 360 the computed factor is 0.9
  while the angular distance to the north axis is at most 30.
\<close>

lemma py_fmod_in_range: "0 \<le> x \<Longrightarrow> x < 360 \<Longrightarrow> py_fmod x 360 = x"
proof -
  assume a: "0 \<le> x" "x < 360"
  have "\<lfloor>x / 360\<rfloor> = 0" using a by (simp add: floor_eq_iff)
  then show ?thesis by (simp add: py_fmod_def)
qed

lemma py_fmod_below: "- 360 \<le> x \<Longrightarrow> x < 0 \<Longrightarrow> py_fmod x 360 = x + 360"
proof -
  assume a: "- 360 \<le> x" "x < 0"
  have "\<lfloor>x / 360\<rfloor> = - 1" using a by (simp add: floor_eq_iff)
  then show ?thesis by (simp add: py_fmod_def)
qed

lemma angular_distance_axis:
  assumes "0 \<le> d" "d < 360" "0 \<le> s" "s \<le> 270"
  shows "angular_distance d s = min \<bar>d - s\<bar> (360 - \<bar>d - s\<bar>)"
proof (cases "s \<le> d")
  case True
  then have "py_fmod (d - s) 360 = d - s" using assms by (simp add: py_fmod_in_range)
  then show ?thesis using True by (simp add: angular_distance_def Let_def)
next
  case False
  then have "py_fmod (d - s) 360 = d - s + 360" using assms by (simp add: py_fmod_below)
  then show ?thesis using False by (simp add: angular_distance_def Let_def min_def)
qed

lemma min_list_four:
  "min_list (map f [a, b, c, e]) = min (f a) (min (f b) (min (f c) (f e :: real)))"
  by simp

lemma directional_factor_agrees_below_330:
  assumes "0 \<le> d" "d < 330"
  shows "calculate_directional_factor d = directional_factor_spec d"
proof -
  have r: "d < 360" using assms by simp
  define m where "m = min \<bar>d - 0\<bar> (min \<bar>d - 90\<bar> (min \<bar>d - 180\<bar> \<bar>d - 270\<bar>))"
  define n where "n = min (angular_distance d 0) (min (angular_distance d 90)
                        (min (angular_distance d 180) (angular_distance d 270)))"
  have a0: "angular_distance d 0 = min \<bar>d - 0\<bar> (360 - \<bar>d - 0\<bar>)"
    by (rule angular_distance_axis[OF assms(1) r]) simp_all
  have a1: "angular_distance d 90 = min \<bar>d - 90\<bar> (360 - \<bar>d - 90\<bar>)"
    by (rule angular_distance_axis[OF assms(1) r]) simp_all
  have a2: "angular_distance d 180 = min \<bar>d - 180\<bar> (360 - \<bar>d - 180\<bar>)"
    by (rule angular_distance_axis[OF assms(1) r]) simp_all
  have a3: "angular_distance d 270 = min \<bar>d - 270\<bar> (360 - \<bar>d - 270\<bar>)"
    by (rule angular_distance_axis[OF assms(1) r]) simp_all
  have c: "calculate_directional_factor d
             = (if m \<le> 15 then 1.15 else if m \<le> 30 then 1.05 else 0.9)"
    unfolding calculate_directional_factor_def main_street_directions_def Let_def
      min_list_four m_def ..
  have s: "directional_factor_spec d
             = (if n \<le> 15 then 1.15 else if n \<le> 30 then 1.05 else 0.9)"
    unfolding directional_factor_spec_def main_street_directions_def Let_def
      min_list_four n_def ..
  have n_eq: "n = min (min \<bar>d - 0\<bar> (360 - \<bar>d - 0\<bar>))
                   (min (min \<bar>d - 90\<bar> (360 - \<bar>d - 90\<bar>))
                      (min (min \<bar>d - 180\<bar> (360 - \<bar>d - 180\<bar>))
                         (min \<bar>d - 270\<bar> (360 - \<bar>d - 270\<bar>))))"
    unfolding n_def a0 a1 a2 a3 ..
  have k30: "\<not> 360 - \<bar>d - 0\<bar> \<le> 30" "\<not> 360 - \<bar>d - 90\<bar> \<le> 30"
            "\<not> 360 - \<bar>d - 180\<bar> \<le> 30" "\<not> 360 - \<bar>d - 270\<bar> \<le> 30"
    using assms by linarith+
  have k15: "\<not> 360 - \<bar>d - 0\<bar> \<le> 15" "\<not> 360 - \<bar>d - 90\<bar> \<le> 15"
            "\<not> 360 - \<bar>d - 180\<bar> \<le> 15" "\<not> 360 - \<bar>d - 270\<bar> \<le> 15"
    using assms by linarith+
  have e15: "m \<le> 15 \<longleftrightarrow> n \<le> 15"
    unfolding m_def n_eq min_le_iff_disj using k15 by blast
  have e30: "m \<le> 30 \<longleftrightarrow> n \<le> 30"
    unfolding m_def n_eq min_le_iff_disj using k30 by blast
  show ?thesis unfolding c s e15 e30 ..
qed

lemma directional_factor_wrong_from_330:
  assumes "330 \<le> d" "d < 360"
  shows "calculate_directional_factor d = 0.9"
    and "directional_factor_spec d = (if 345 \<le> d then 1.15 else 1.05)"
proof -
  have p: "0 \<le> d" using assms by simp
  define m where "m = min \<bar>d - 0\<bar> (min \<bar>d - 90\<bar> (min \<bar>d - 180\<bar> \<bar>d - 270\<bar>))"
  define n where "n = min (angular_distance d 0) (min (angular_distance d 90)
                        (min (angular_distance d 180) (angular_distance d 270)))"
  have a0: "angular_distance d 0 = min \<bar>d - 0\<bar> (360 - \<bar>d - 0\<bar>)"
    by (rule angular_distance_axis[OF p assms(2)]) simp_all
  have a1: "angular_distance d 90 = min \<bar>d - 90\<bar> (360 - \<bar>d - 90\<bar>)"
    by (rule angular_distance_axis[OF p assms(2)]) simp_all
  have a2: "angular_distance d 180 = min \<bar>d - 180\<bar> (360 - \<bar>d - 180\<bar>)"
    by (rule angular_distance_axis[OF p assms(2)]) simp_all
  have a3: "angular_distance d 270 = min \<bar>d - 270\<bar> (360 - \<bar>d - 270\<bar>)"
    by (rule angular_distance_axis[OF p assms(2)]) simp_all
  have c: "calculate_directional_factor d
             = (if m \<le> 15 then 1.15 else if m \<le> 30 then 1.05 else 0.9)"
    unfolding calculate_directional_factor_def main_street_directions_def Let_def
      min_list_four m_def ..
  have s: "directional_factor_spec d
             = (if n \<le> 15 then 1.15 else if n \<le> 30 then 1.05 else 0.9)"
    unfolding directional_factor_spec_def main_street_directions_def Let_def
      min_list_four n_def ..
  have far: "\<not> \<bar>d - 0\<bar> \<le> 30" "\<not> \<bar>d - 90\<bar> \<le> 30" "\<not> \<bar>d - 180\<bar> \<le> 30"
            "\<not> \<bar>d - 270\<bar> \<le> 30"
    using assms by linarith+
  have far15: "\<not> \<bar>d - 0\<bar> \<le> 15" "\<not> \<bar>d - 90\<bar> \<le> 15" "\<not> \<bar>d - 180\<bar> \<le> 15"
              "\<not> \<bar>d - 270\<bar> \<le> 15"
    using far by linarith+
  have m30: "\<not> m \<le> 30" unfolding m_def min_le_iff_disj using far by blast
  then have m15: "\<not> m \<le> 15" by linarith
  show "calculate_directional_factor d = 0.9" unfolding c using m30 m15 by simp
  have k: "\<not> 360 - \<bar>d - 90\<bar> \<le> 30" "\<not> 360 - \<bar>d - 180\<bar> \<le> 30"
          "\<not> 360 - \<bar>d - 270\<bar> \<le> 30"
    using assms by linarith+
  have k15: "\<not> 360 - \<bar>d - 90\<bar> \<le> 15" "\<not> 360 - \<bar>d - 180\<bar> \<le> 15"
            "\<not> 360 - \<bar>d - 270\<bar> \<le> 15"
    using k by linarith+
  have n30: "n \<le> 30 \<longleftrightarrow> 360 - \<bar>d - 0\<bar> \<le> 30"
    unfolding n_def a0 a1 a2 a3 min_le_iff_disj using far k by blast
  have n15: "n \<le> 15 \<longleftrightarrow> 360 - \<bar>d - 0\<bar> \<le> 15"
    unfolding n_def a0 a1 a2 a3 min_le_iff_disj using far15 k15 by blast
  have "360 - \<bar>d - 0\<bar> \<le> 30" using assms by linarith
  moreover have "360 - \<bar>d - 0\<bar> \<le> 15 \<longleftrightarrow> 345 \<le> d" using assms by linarith
  ultimately show "directional_factor_spec d = (if 345 \<le> d then 1.15 else 1.05)"
    unfolding s n30 n15 by simp
qed

text \<open>
  C5. The directional factor is computed from the plain differences to 0, 90, 180 and 270,
  without reduction modulo 360: the direction 350, which is 10 degrees from the north
  axis, gets the cross-flow factor 0.9 where the factor by angular distance is 1.15. At
  the directions 0 and 45 the two agree, with 1.15 and 0.9.
\<close>

theorem directional_factor_no_wraparound:
  "calculate_directional_factor 350 = 0.9
   \<and> directional_factor_spec 350 = 1.15
   \<and> angular_distance 350 0 = 10
   \<and> calculate_directional_factor 0 = 1.15 \<and> directional_factor_spec 0 = 1.15
   \<and> calculate_directional_factor 45 = 0.9 \<and> directional_factor_spec 45 = 0.9"
  by (simp add: calculate_directional_factor_def directional_factor_spec_def
        angular_distance_def py_fmod_def main_street_directions_def Let_def)

text \<open>Double rounding: sign, relative error, and evaluation at a known binade.\<close>

lemma round_half_even_nonneg: "0 \<le> x \<Longrightarrow> 0 \<le> round_half_even x"
  by (simp add: round_half_even_def Let_def)

lemma round_half_even_error: "\<bar>of_int (round_half_even y) - y\<bar> \<le> 1 / 2"
proof -
  define f where "f = \<lfloor>y\<rfloor>"
  define d where "d = y - of_int f"
  have d: "0 \<le> d" "d < 1" unfolding d_def f_def by linarith+
  have y: "y = of_int f + d" by (simp add: d_def)
  have r: "(round_half_even y = f \<and> d \<le> 1 / 2) \<or> (round_half_even y = f + 1 \<and> 1 / 2 \<le> d)"
    unfolding round_half_even_def Let_def f_def[symmetric] d_def[symmetric] by auto
  then show ?thesis
  proof
    assume a: "round_half_even y = f \<and> d \<le> 1 / 2"
    then have "of_int (round_half_even y) - y = - d" using y by simp
    then show ?thesis using a d by simp
  next
    assume a: "round_half_even y = f + 1 \<and> 1 / 2 \<le> d"
    then have "of_int (round_half_even y) - y = 1 - d" using y by simp
    then show ?thesis using a d by simp
  qed
qed

lemma fl_nonneg: "0 \<le> x \<Longrightarrow> 0 \<le> fl x"
  by (simp add: fl_def Let_def round_half_even_nonneg)

lemma fl_error: "\<bar>fl x - x\<bar> \<le> \<bar>x\<bar> / 2 ^ 53"
proof (cases "x = 0")
  case True
  then show ?thesis by (simp add: fl_def)
next
  case False
  define e where "e = \<lfloor>log 2 \<bar>x\<bar>\<rfloor>"
  define q :: real where "q = 2 powr (of_int e - 52)"
  have qpos: "0 < q" by (simp add: q_def)
  have fl_eq: "fl x = of_int (round_half_even (x / q)) * q"
    using False by (simp add: fl_def Let_def q_def e_def)
  have "fl x - x = (of_int (round_half_even (x / q)) - x / q) * q"
    using qpos by (simp add: fl_eq algebra_simps)
  then have "\<bar>fl x - x\<bar> = \<bar>of_int (round_half_even (x / q)) - x / q\<bar> * q"
    using qpos by (simp add: abs_mult)
  also have "\<dots> \<le> (1 / 2) * q"
    using round_half_even_error[of "x / q"] qpos by (rule mult_right_mono[OF _ less_imp_le])
  finally have b: "\<bar>fl x - x\<bar> \<le> q / 2" by simp
  have "of_int e \<le> log 2 \<bar>x\<bar>" unfolding e_def by linarith
  then have "2 powr of_int e \<le> \<bar>x\<bar>"
    using False by (simp add: le_log_iff)
  moreover have "2 powr of_int e = q * 2 ^ 52"
  proof -
    have "q * 2 powr 52 = 2 powr (of_int e - 52 + 52)"
      unfolding q_def by (simp only: powr_add[symmetric])
    then show ?thesis by simp
  qed
  ultimately have "q * 2 ^ 52 \<le> \<bar>x\<bar>" by simp
  then have "q / 2 \<le> \<bar>x\<bar> / 2 ^ 53" by simp
  with b show ?thesis by linarith
qed

lemma fl_eval:
  assumes "2 powr of_int e \<le> \<bar>x\<bar>" and "\<bar>x\<bar> < 2 powr (of_int e + 1)"
  shows "fl x = of_int (round_half_even (x / 2 powr (of_int e - 52))) * 2 powr (of_int e - 52)"
proof -
  have pos: "0 < \<bar>x\<bar>" using assms(1) by (smt (verit) powr_gt_zero)
  have "of_int e \<le> log 2 \<bar>x\<bar>" using assms(1) pos by (simp add: le_log_iff)
  moreover have "log 2 \<bar>x\<bar> < of_int e + 1" using assms(2) pos by (simp add: log_less_iff)
  ultimately have "\<lfloor>log 2 \<bar>x\<bar>\<rfloor> = e" by linarith
  then show ?thesis using pos by (simp add: fl_def Let_def)
qed

lemma fl_eval_small:
  assumes "1 / 2 ^ k \<le> \<bar>x\<bar>" and "\<bar>x\<bar> < 2 / 2 ^ k"
  shows "fl x = of_int (round_half_even (x * 2 ^ (k + 52))) / 2 ^ (k + 52)"
proof -
  have e: "real_of_int (- int k) = - real k" by simp
  have p: "2 powr (- real k) = 1 / 2 ^ k"
    by (simp add: powr_minus_divide powr_realpow)
  have "2 powr (- real k + 1) = 2 powr (- real k) * 2 powr 1" by (rule powr_add)
  also have "\<dots> = 1 / 2 ^ k * 2" unfolding p by simp
  finally have p1: "2 powr (- real k + 1) = 2 / 2 ^ k" by simp
  have a1: "2 powr real_of_int (- int k) \<le> \<bar>x\<bar>" unfolding e p by (rule assms(1))
  have a2: "\<bar>x\<bar> < 2 powr (real_of_int (- int k) + 1)" unfolding e p1 by (rule assms(2))
  have "real_of_int (- int k) - 52 = - real (k + 52)" by simp
  then have "2 powr (real_of_int (- int k) - 52) = 2 powr (- real (k + 52))" by (rule arg_cong)
  also have "\<dots> = 1 / 2 ^ (k + 52)"
    by (simp add: powr_minus_divide powr_realpow del: of_nat_add)
  finally have q: "2 powr (real_of_int (- int k) - 52) = 1 / 2 ^ (k + 52)" .
  show ?thesis using fl_eval[OF a1 a2] unfolding q by simp
qed

lemma fl_eval_large:
  assumes "2 ^ k \<le> \<bar>x\<bar>" and "\<bar>x\<bar> < 2 * 2 ^ k" and "k \<le> 52"
  shows "fl x = of_int (round_half_even (x * 2 ^ (52 - k))) / 2 ^ (52 - k)"
proof -
  have e: "real_of_int (int k) = real k" by simp
  have p: "2 powr real k = 2 ^ k" by (simp add: powr_realpow)
  have "2 powr (real k + 1) = 2 powr real k * 2 powr 1" by (rule powr_add)
  also have "\<dots> = 2 ^ k * 2" unfolding p by simp
  finally have p1: "2 powr (real k + 1) = 2 * 2 ^ k" by simp
  have a1: "2 powr real_of_int (int k) \<le> \<bar>x\<bar>" unfolding e p by (rule assms(1))
  have a2: "\<bar>x\<bar> < 2 powr (real_of_int (int k) + 1)" unfolding e p1 by (rule assms(2))
  have "real_of_int (int k) - 52 = - real (52 - k)" using assms(3) by simp
  then have "2 powr (real_of_int (int k) - 52) = 2 powr (- real (52 - k))" by (rule arg_cong)
  also have "\<dots> = 1 / 2 ^ (52 - k)"
    by (simp add: powr_minus_divide powr_realpow del: of_nat_diff)
  finally have q: "2 powr (real_of_int (int k) - 52) = 1 / 2 ^ (52 - k)" .
  show ?thesis using fl_eval[OF a1 a2] unfolding q by simp
qed

lemma fl_pos: "0 < x \<Longrightarrow> 0 < fl x"
proof -
  assume p: "0 < x"
  have "\<bar>fl x - x\<bar> \<le> \<bar>x\<bar> / 2 ^ 53" by (rule fl_error)
  moreover have "\<bar>x\<bar> / 2 ^ 53 < x" using p by simp
  ultimately show ?thesis by linarith
qed

lemma fl_three_tenths: "fl 0.3 = 5404319552844595 / 18014398509481984"
  using fl_eval_small[of 2 "0.3"] by (simp add: round_half_even_def Let_def)

lemma fl_one_tenth: "fl 0.1 = 3602879701896397 / 36028797018963968"
  using fl_eval_small[of 4 "0.1"] by (simp add: round_half_even_def Let_def)

lemma fl_ten: "fl 10 = 10"
  using fl_eval_large[of 3 10] by (simp add: round_half_even_def Let_def)

lemma fl_ten_plus_roughness:
  "fl (10 + 5404319552844595 / 18014398509481984) = 2899192260119757 / 281474976710656"
proof -
  have s: "(10 + 5404319552844595 / 18014398509481984 :: real)
             = 185548304647664435 / 18014398509481984" by simp
  show ?thesis
    unfolding s using fl_eval_large[of 3 "185548304647664435 / 18014398509481984"]
    by (simp add: round_half_even_def Let_def)
qed

lemma fl_height_ratio:
  "fl ((2899192260119757 / 281474976710656) / (5404319552844595 / 18014398509481984))
     = 4831987100199595 / 140737488355328"
  using fl_eval_large[of 5 "(2899192260119757 / 281474976710656) / (5404319552844595 / 18014398509481984)"]
  by (simp add: round_half_even_def Let_def)

lemma fl_product_at_one_tenth:
  "fl ((3602879701896397 / 36028797018963968) * (7962626925241939 / 2251799813685248))
     = 398131346262097 / 1125899906842624"
  using fl_eval_small[of 2 "(3602879701896397 / 36028797018963968) * (7962626925241939 / 2251799813685248)"]
  by (simp add: round_half_even_def Let_def)

lemma fl_quotient_at_one_tenth:
  "fl ((398131346262097 / 1125899906842624) / (7962626925241939 / 2251799813685248))
     = 7205759403792795 / 72057594037927936"
  using fl_eval_small[of 4 "(398131346262097 / 1125899906842624) / (7962626925241939 / 2251799813685248)"]
  by (simp add: round_half_even_def Let_def)

lemma profile_ieee_at_reference_height:
  assumes "WindSimulator_init cfg = Inr sim"
  shows "calculate_wind_profile_ieee np_log sim (fl (reference_height sim)) u None None
           = Inr (max 0 (fl (fl (u * np_log (4831987100199595 / 140737488355328))
                              / np_log (4831987100199595 / 140737488355328))))"
proof -
  note f = WindSimulator_init_fields[OF assms]
  have c: "\<not> (10::real) \<le> fl 0.3" by (simp add: fl_three_tenths)
  have z: "fl 0.3 \<noteq> 0" by (simp add: fl_three_tenths)
  have h: "fl (fl (10 + fl 0.3) / fl 0.3) = 4831987100199595 / 140737488355328"
    by (simp only: fl_three_tenths fl_ten_plus_roughness fl_height_ratio)
  show ?thesis
    unfolding calculate_wind_profile_ieee_def Let_def f option.case fl_ten
    by (simp only: c z h if_False)
qed

lemma product_quotient_error:
  assumes "0 \<le> u" and "0 < L"
  shows "0 \<le> fl (fl (u * L) / L)"
    and "\<bar>fl (fl (u * L) / L) - u\<bar> \<le> (2 / 2 ^ 53 + 1 / 2 ^ 106) * u"
proof -
  define p where "p = fl (u * L)"
  define s where "s = p / L"
  have uL: "0 \<le> u * L" using assms by simp
  have p0: "0 \<le> p" unfolding p_def using uL by (rule fl_nonneg)
  have s0: "0 \<le> s" unfolding s_def using p0 assms(2) by simp
  show "0 \<le> fl (fl (u * L) / L)"
    using fl_nonneg[OF s0] by (simp add: s_def p_def)
  have "\<bar>p - u * L\<bar> \<le> \<bar>u * L\<bar> / 2 ^ 53" unfolding p_def by (rule fl_error)
  then have e1: "\<bar>p - u * L\<bar> \<le> u * L / 2 ^ 53" using uL by simp
  have "s - u = (p - u * L) / L" using assms(2) by (simp add: s_def field_simps)
  then have "\<bar>s - u\<bar> = \<bar>p - u * L\<bar> / L" using assms(2) by (simp add: abs_divide)
  also have "\<dots> \<le> (u * L / 2 ^ 53) / L"
    by (rule divide_right_mono[OF e1]) (use assms(2) in simp)
  also have "\<dots> = u / 2 ^ 53" using assms(2) by simp
  finally have e2: "\<bar>s - u\<bar> \<le> u / 2 ^ 53" .
  then have sb: "s \<le> u + u / 2 ^ 53" by linarith
  have "\<bar>fl s - s\<bar> \<le> \<bar>s\<bar> / 2 ^ 53" by (rule fl_error)
  then have "\<bar>fl s - s\<bar> \<le> s / 2 ^ 53" using s0 by simp
  also have "\<dots> \<le> (u + u / 2 ^ 53) / 2 ^ 53" by (rule divide_right_mono[OF sb]) simp
  finally have e3: "\<bar>fl s - s\<bar> \<le> (u + u / 2 ^ 53) / 2 ^ 53" .
  have "\<bar>fl s - u\<bar> \<le> \<bar>fl s - s\<bar> + \<bar>s - u\<bar>" by linarith
  also have "\<dots> \<le> (u + u / 2 ^ 53) / 2 ^ 53 + u / 2 ^ 53" using e2 e3 by linarith
  also have "\<dots> = (2 / 2 ^ 53 + 1 / 2 ^ 106) * u" by (simp add: field_simps)
  finally show "\<bar>fl (fl (u * L) / L) - u\<bar> \<le> (2 / 2 ^ 53 + 1 / 2 ^ 106) * u"
    by (simp add: s_def p_def)
qed

lemma profile_exact_at_reference_height:
  assumes "WindSimulator_init cfg = Inr sim" and "0 \<le> u"
  shows "calculate_wind_profile sim (reference_height sim) u None None = Inr u"
proof -
  note f = WindSimulator_init_fields[OF assms(1)]
  have "ln ((10 + 0.3) / 0.3 :: real) \<noteq> 0" by simp
  then show ?thesis
    using assms(2) by (simp add: calculate_wind_profile_def f Let_def)
qed

lemma np_log_reference_pos: "1 < x \<Longrightarrow> 0 < np_log_reference x"
  by (simp add: np_log_reference_def fl_pos)

text \<open>
  C9, as amended. At the simulator's own reference height and with the default roughness
  length the logarithmic profile returns the reference speed up to rounding, for every
  reference speed that is not negative: exactly in exact arithmetic, and in double
  arithmetic (the logarithm of a double above 1 being positive) within the relative error
  2/2^53 + 1/2^106 of the rounded product and the rounded quotient.
\<close>

theorem profile_at_reference_height_rounded:
  assumes "WindSimulator_init cfg = Inr sim" and "0 \<le> u"
      and "\<And>x. 1 < x \<Longrightarrow> 0 < np_log x"
  shows "calculate_wind_profile sim (reference_height sim) u None None = Inr u
       \<and> (\<exists>v. calculate_wind_profile_ieee np_log sim (fl (reference_height sim)) u None None
                  = Inr v
              \<and> \<bar>v - u\<bar> \<le> (2 / 2 ^ 53 + 1 / 2 ^ 106) * u)"
proof -
  define L where "L = np_log (4831987100199595 / 140737488355328)"
  have L: "0 < L" unfolding L_def by (rule assms(3)) simp
  have v: "calculate_wind_profile_ieee np_log sim (fl (reference_height sim)) u None None
             = Inr (max 0 (fl (fl (u * L) / L)))"
    unfolding L_def by (rule profile_ieee_at_reference_height[OF assms(1)])
  have "0 \<le> fl (fl (u * L) / L)"
    and b: "\<bar>fl (fl (u * L) / L) - u\<bar> \<le> (2 / 2 ^ 53 + 1 / 2 ^ 106) * u"
    using product_quotient_error[OF assms(2) L] by blast+
  then have "max 0 (fl (fl (u * L) / L)) = fl (fl (u * L) / L)" by simp
  with v b profile_exact_at_reference_height[OF assms(1,2)] show ?thesis by simp
qed

theorem profile_at_reference_height_rounded_witness:
  "(0::real) \<le> 15
   \<and> calculate_wind_profile test_wind_sim (reference_height test_wind_sim) 15 None None = Inr 15
   \<and> (\<exists>v. calculate_wind_profile_ieee np_log_reference test_wind_sim
                (fl (reference_height test_wind_sim)) 15 None None = Inr v
          \<and> \<bar>v - 15\<bar> \<le> (2 / 2 ^ 53 + 1 / 2 ^ 106) * 15)"
  using profile_at_reference_height_rounded[OF test_wind_sim_init _ np_log_reference_pos, of 15]
  by simp

text \<open>
  In double arithmetic the reference speed 0.1 comes back as 0.10000000000000002, one unit
  in the last place above it.
\<close>

theorem profile_at_reference_height_double_counterexample:
  "WindSimulator_init test_config = Inr test_wind_sim
   \<and> fl 0.1 = 3602879701896397 / 36028797018963968
   \<and> (0::real) \<le> fl 0.1
   \<and> calculate_wind_profile_ieee np_log_reference test_wind_sim
         (fl (reference_height test_wind_sim)) (fl 0.1) None None
       = Inr (7205759403792795 / 72057594037927936)
   \<and> (7205759403792795 / 72057594037927936 :: real) \<noteq> 3602879701896397 / 36028797018963968"
proof -
  have l: "np_log_reference (4831987100199595 / 140737488355328)
             = 7962626925241939 / 2251799813685248"
    by (simp add: np_log_reference_def)
  have "calculate_wind_profile_ieee np_log_reference test_wind_sim
          (fl (reference_height test_wind_sim)) (fl 0.1) None None
        = Inr (max 0 (7205759403792795 / 72057594037927936))"
    unfolding profile_ieee_at_reference_height[OF test_wind_sim_init] l fl_one_tenth
      fl_product_at_one_tenth fl_quotient_at_one_tenth ..
  then show ?thesis
    using test_wind_sim_init by (simp add: fl_one_tenth)
qed

lemma py_round_nonneg: "0 \<le> x \<Longrightarrow> 0 \<le> py_round x n"
  by (simp add: py_round_def round_half_even_nonneg)

lemma for_range_list_all:
  assumes "\<And>i g. P (fst (body i g))"
  shows "list_all P (fst (for_range body i k g))"
proof (induction k arbitrary: i g)
  case 0
  show ?case by simp
next
  case (Suc k)
  obtain x g1 where b: "body i g = (x, g1)" by (cases "body i g") auto
  obtain xs g2 where r: "for_range body (Suc i) k g1 = (xs, g2)"
    by (cases "for_range body (Suc i) k g1") auto
  have "P x" using assms[of i g] b by simp
  moreover have "list_all P xs" using Suc.IH[of "Suc i" g1] r by simp
  ultimately show ?case using b r by simp
qed

lemma calculate_wind_profile_nonneg:
  "calculate_wind_profile sim h u zr z0 = Inr v \<Longrightarrow> 0 \<le> v"
  by (auto simp: calculate_wind_profile_def Let_def split: if_splits)

lemma calculate_wind_profile_returns:
  assumes "surface_roughness sim \<noteq> 0"
  shows "\<exists>v. calculate_wind_profile sim h u zr None = Inr v \<and> 0 \<le> v"
  using assms by (simp add: calculate_wind_profile_def Let_def)

lemma calculate_urban_effects_returns:
  assumes "WindSimulator_init cfg = Inr sim"
  shows "\<exists>ped. calculate_wind_profile sim (pedestrian_height sim) u None None = Inr ped
           \<and> 0 \<le> ped
           \<and> calculate_urban_effects sim u dir =
               Inr \<lparr> max_tunnel_speed = u * 1.2 * calculate_directional_factor dir,
                     min_wake_speed = u * 0.7 * calculate_directional_factor dir,
                     avg_urban_speed = u * 0.9 * calculate_directional_factor dir,
                     pedestrian_speed = ped * calculate_directional_factor dir,
                     directional_factor = calculate_directional_factor dir,
                     tunnel_factor = 1.2,
                     wake_reduction_pct = 30 \<rparr>"
proof -
  note f = WindSimulator_init_fields[OF assms]
  have "surface_roughness sim \<noteq> 0" using f by simp
  from calculate_wind_profile_returns[OF this, of "pedestrian_height sim" u None]
  obtain ped where p: "calculate_wind_profile sim (pedestrian_height sim) u None None = Inr ped"
      "0 \<le> ped" by blast
  then show ?thesis
    by (simp add: calculate_urban_effects_def Let_def f)
qed

lemma wind_point_at_speed_nonneg:
  assumes "\<And>lo hi g. lo \<le> hi \<Longrightarrow> lo \<le> fst (np_uniform rt lo hi g)"
      and "0 \<le> max_tunnel_speed ue" "0 \<le> min_wake_speed ue" "0 \<le> avg_urban_speed ue"
      and "green_area_reduction sim \<le> 1"
  shows "0 \<le> speed (fst (wind_point_at rt sim dir ue i g))"
proof -
  obtain n1 g1 where a1: "np_normal rt 0 0.008 g = (n1, g1)"
    by (cases "np_normal rt 0 0.008 g") auto
  obtain n2 g2 where a2: "np_normal rt 0 0.012 g1 = (n2, g2)"
    by (cases "np_normal rt 0 0.012 g1") auto
  obtain sv g3 where a3: "np_uniform rt 0.6 1.4 g2 = (sv, g3)"
    by (cases "np_uniform rt 0.6 1.4 g2") auto
  obtain env g4 where a4:
    "np_choice rt [''open'', ''tunnel'', ''wake'', ''green'', ''intersection'']
       [0.3, 0.2, 0.2, 0.15, 0.15] g3 = (env, g4)"
    by (cases "np_choice rt [''open'', ''tunnel'', ''wake'', ''green'', ''intersection'']
       [0.3, 0.2, 0.2, 0.15, 0.15] g3") auto
  obtain dv g5 where a5: "np_normal rt 0 25 g4 = (dv, g5)"
    by (cases "np_normal rt 0 25 g4") auto
  obtain ht g6 where a6: "np_uniform rt 1.0 20.0 g5 = (ht, g6)"
    by (cases "np_uniform rt 1.0 20.0 g5") auto
  have "0.6 \<le> fst (np_uniform rt 0.6 1.4 g2)" by (rule assms(1)) simp
  then have sv: "0 \<le> sv" using a3 by simp
  have gr: "0 \<le> 1 - green_area_reduction sim" using assms(5) by simp
  have s1: "0 \<le> max_tunnel_speed ue * sv" using assms(2) sv by simp
  have s2: "0 \<le> min_wake_speed ue * sv" using assms(3) sv by simp
  have s3: "0 \<le> avg_urban_speed ue * (1 - green_area_reduction sim) * sv"
    using assms(4) sv gr by simp
  have s4: "0 \<le> avg_urban_speed ue * 1.1 * sv" using assms(4) sv by simp
  have s5: "0 \<le> avg_urban_speed ue * sv" using assms(4) sv by simp
  show ?thesis
    using a1 a2 a3 a4 a5 a6 s1 s2 s3 s4 s5
    by (simp add: wind_point_at_def Let_def py_round_nonneg del: set_simps)
qed

lemma generate_wind_field_speed_nonneg:
  assumes "\<And>lo hi g. lo \<le> hi \<Longrightarrow> lo \<le> fst (np_uniform rt lo hi g)"
      and "0 \<le> max_tunnel_speed ue" "0 \<le> min_wake_speed ue" "0 \<le> avg_urban_speed ue"
      and "green_area_reduction sim \<le> 1"
  shows "list_all (\<lambda>p. 0 \<le> speed p) (fst (generate_wind_field rt sim name u dir ue g))"
  unfolding generate_wind_field_def Let_def
  by (rule for_range_list_all) (rule wind_point_at_speed_nonneg[OF assms])

lemma wind_simulate_scenario_returns:
  assumes "calculate_urban_effects sim u dir = Inr ue" and "min_wake_speed ue \<noteq> 0"
  shows "\<exists>res g1. wind_simulate_scenario rt sim u dir name detailed now g = (Inr res, g1)
           \<and> max_speed (w_wind_field_analysis res) = py_round (max_tunnel_speed ue) 2
           \<and> min_speed (w_wind_field_analysis res) = py_round (min_wake_speed ue) 2
           \<and> a_avg_urban_speed (w_wind_field_analysis res) = py_round (avg_urban_speed ue) 2
           \<and> a_pedestrian_speed (w_wind_field_analysis res) = py_round (pedestrian_speed ue) 2
           \<and> wind_field res =
                 (if detailed then Some (fst (generate_wind_field rt sim name u dir ue g))
                  else None)"
proof (cases detailed)
  case True
  obtain field g1 where "generate_wind_field rt sim name u dir ue g = (field, g1)"
    by (cases "generate_wind_field rt sim name u dir ue g") auto
  then show ?thesis
    using assms True
    by (simp add: wind_simulate_scenario_def Let_def split: prod.splits)
next
  case False
  then show ?thesis
    using assms
    by (simp add: wind_simulate_scenario_def Let_def split: prod.splits)
qed

text \<open>
  C8, as amended. The vertical-profile speed and the pedestrian-level speed are never
  negative, whatever the reference speed. For a reference speed that is not negative the
  tunnel, wake and average urban speeds and the speed of every generated wind-field point
  are not negative either (the uniform draw being at least its lower bound), and for a
  positive reference speed \<open>simulate_scenario\<close> returns a result whose reported
  speeds and points are all non-negative.
\<close>

theorem wind_speeds_nonneg:
  assumes "WindSimulator_init cfg = Inr sim"
      and "\<And>lo hi s. lo \<le> hi \<Longrightarrow> lo \<le> fst (np_uniform rt lo hi s)"
  shows "(\<exists>v. calculate_wind_profile sim h u zr None = Inr v \<and> 0 \<le> v)
       \<and> (\<exists>ue. calculate_urban_effects sim u dir = Inr ue
              \<and> 0 \<le> pedestrian_speed ue
              \<and> (0 \<le> u \<longrightarrow>
                    0 \<le> max_tunnel_speed ue \<and> 0 \<le> min_wake_speed ue
                  \<and> 0 \<le> avg_urban_speed ue
                  \<and> list_all (\<lambda>p. 0 \<le> speed p)
                        (fst (generate_wind_field rt sim name u dir ue g))))
       \<and> (0 < u \<longrightarrow>
             (\<exists>res g1. wind_simulate_scenario rt sim u dir name detailed now g = (Inr res, g1)
                \<and> 0 \<le> max_speed (w_wind_field_analysis res)
                \<and> 0 \<le> min_speed (w_wind_field_analysis res)
                \<and> 0 \<le> a_avg_urban_speed (w_wind_field_analysis res)
                \<and> 0 \<le> a_pedestrian_speed (w_wind_field_analysis res)
                \<and> (case wind_field res of
                      None \<Rightarrow> \<not> detailed
                    | Some points \<Rightarrow> detailed \<and> list_all (\<lambda>p. 0 \<le> speed p) points)))"
proof -
  note f = WindSimulator_init_fields[OF assms(1)]
  have fp: "0 < calculate_directional_factor dir" by (rule directional_factor_pos)
  have "surface_roughness sim \<noteq> 0" using f by simp
  then have profile: "\<exists>v. calculate_wind_profile sim h u zr None = Inr v \<and> 0 \<le> v"
    by (rule calculate_wind_profile_returns)
  obtain ped where ped: "0 \<le> ped"
    and ue: "calculate_urban_effects sim u dir =
               Inr \<lparr> max_tunnel_speed = u * 1.2 * calculate_directional_factor dir,
                     min_wake_speed = u * 0.7 * calculate_directional_factor dir,
                     avg_urban_speed = u * 0.9 * calculate_directional_factor dir,
                     pedestrian_speed = ped * calculate_directional_factor dir,
                     directional_factor = calculate_directional_factor dir,
                     tunnel_factor = 1.2,
                     wake_reduction_pct = 30 \<rparr>" (is "_ = Inr ?ue")
    using calculate_urban_effects_returns[OF assms(1), of u dir] by blast
  have p0: "0 \<le> pedestrian_speed ?ue" using ped fp by simp
  have nonneg: "0 \<le> max_tunnel_speed ?ue \<and> 0 \<le> min_wake_speed ?ue
              \<and> 0 \<le> avg_urban_speed ?ue" if "0 \<le> u"
    using that fp by simp
  have gr: "green_area_reduction sim \<le> 1" using f by simp
  have field: "list_all (\<lambda>p. 0 \<le> speed p) (fst (generate_wind_field rt sim name u dir ?ue g))"
    if "0 \<le> u"
    using nonneg[OF that] generate_wind_field_speed_nonneg[OF assms(2) _ _ _ gr, of ?ue name u dir g]
    by blast
  have sim: "\<exists>res g1. wind_simulate_scenario rt sim u dir name detailed now g = (Inr res, g1)
                \<and> 0 \<le> max_speed (w_wind_field_analysis res)
                \<and> 0 \<le> min_speed (w_wind_field_analysis res)
                \<and> 0 \<le> a_avg_urban_speed (w_wind_field_analysis res)
                \<and> 0 \<le> a_pedestrian_speed (w_wind_field_analysis res)
                \<and> (case wind_field res of
                      None \<Rightarrow> \<not> detailed
                    | Some points \<Rightarrow> detailed \<and> list_all (\<lambda>p. 0 \<le> speed p) points)"
    if pos: "0 < u"
  proof -
    have u0: "0 \<le> u" using pos by simp
    have "min_wake_speed ?ue \<noteq> 0" using pos fp by simp
    from wind_simulate_scenario_returns[OF ue this, of rt name detailed now g]
    obtain res g1 where r:
      "wind_simulate_scenario rt sim u dir name detailed now g = (Inr res, g1)"
      "max_speed (w_wind_field_analysis res) = py_round (max_tunnel_speed ?ue) 2"
      "min_speed (w_wind_field_analysis res) = py_round (min_wake_speed ?ue) 2"
      "a_avg_urban_speed (w_wind_field_analysis res) = py_round (avg_urban_speed ?ue) 2"
      "a_pedestrian_speed (w_wind_field_analysis res) = py_round (pedestrian_speed ?ue) 2"
      "wind_field res =
         (if detailed then Some (fst (generate_wind_field rt sim name u dir ?ue g)) else None)"
      by blast
    have "0 \<le> max_speed (w_wind_field_analysis res)"
         "0 \<le> min_speed (w_wind_field_analysis res)"
         "0 \<le> a_avg_urban_speed (w_wind_field_analysis res)"
         "0 \<le> a_pedestrian_speed (w_wind_field_analysis res)"
      unfolding r(2-5) using nonneg[OF u0] p0 by (simp_all only: py_round_nonneg simp_thms)
    moreover have "case wind_field res of
                      None \<Rightarrow> \<not> detailed
                    | Some points \<Rightarrow> detailed \<and> list_all (\<lambda>p. 0 \<le> speed p) points"
      using r(6) field[OF u0] by (cases detailed) simp_all
    ultimately show ?thesis using r(1) by blast
  qed
  show ?thesis
    using profile ue p0 nonneg field sim by (intro conjI exI[of _ ?ue] impI) blast+
qed

lemma demo_runtime_uniform:
  "lo \<le> hi \<Longrightarrow> lo \<le> fst (np_uniform demo_runtime lo hi s)"
  by (simp add: demo_runtime_def)

theorem wind_speeds_nonneg_witness:
  "(\<exists>ue. calculate_urban_effects test_wind_sim 15 270 = Inr ue
       \<and> 0 \<le> max_tunnel_speed ue \<and> 0 \<le> min_wake_speed ue \<and> 0 \<le> avg_urban_speed ue
       \<and> 0 \<le> pedestrian_speed ue
       \<and> list_all (\<lambda>p. 0 \<le> speed p)
             (fst (generate_wind_field demo_runtime test_wind_sim ''Test silny wiatr zachodni''
                     15 270 ue 0)))
   \<and> (\<exists>res g1.
         wind_simulate_scenario demo_runtime test_wind_sim 15 270 ''Test silny wiatr zachodni''
           True ''2025-09-01T12:00:00'' 0 = (Inr res, g1)
       \<and> 0 \<le> max_speed (w_wind_field_analysis res)
       \<and> 0 \<le> min_speed (w_wind_field_analysis res))"
  using wind_speeds_nonneg[OF test_wind_sim_init demo_runtime_uniform,
          of 10 15 None 270 "''Test silny wiatr zachodni''" 0 True "''2025-09-01T12:00:00''"]
  by auto

text \<open>
  With the reference speed -5 and the direction 0 the tunnel, wake and average urban speeds
  are -6.9, -4.025 and -5.175, and the result reports the maximum speed -6.9.
\<close>

theorem wind_speeds_negative_reference_counterexample:
  "WindSimulator_init test_config = Inr test_wind_sim
   \<and> map_sum id max_tunnel_speed (calculate_urban_effects test_wind_sim (- 5) 0) = Inr (- 6.9)
   \<and> map_sum id min_wake_speed (calculate_urban_effects test_wind_sim (- 5) 0) = Inr (- 4.025)
   \<and> map_sum id avg_urban_speed (calculate_urban_effects test_wind_sim (- 5) 0) = Inr (- 5.175)
   \<and> map_sum id (\<lambda>res. max_speed (w_wind_field_analysis res))
         (fst (wind_simulate_scenario demo_runtime test_wind_sim (- 5) 0 ''ujemna predkosc''
                 False ''2025-09-01T12:00:00'' 0)) = Inr (- 6.9)
   \<and> \<not> (0 :: real) \<le> - 6.9"
proof -
  obtain ped where
    ue: "calculate_urban_effects test_wind_sim (- 5) 0 =
               Inr \<lparr> max_tunnel_speed = - 5 * 1.2 * calculate_directional_factor 0,
                     min_wake_speed = - 5 * 0.7 * calculate_directional_factor 0,
                     avg_urban_speed = - 5 * 0.9 * calculate_directional_factor 0,
                     pedestrian_speed = ped * calculate_directional_factor 0,
                     directional_factor = calculate_directional_factor 0,
                     tunnel_factor = 1.2,
                     wake_reduction_pct = 30 \<rparr>" (is "_ = Inr ?ue")
    using calculate_urban_effects_returns[OF test_wind_sim_init, of "- 5" 0] by blast
  have d0: "calculate_directional_factor 0 = 1.15"
    by (simp add: calculate_directional_factor_def main_street_directions_def Let_def)
  have w: "min_wake_speed ?ue \<noteq> 0" by (simp add: d0)
  have rd: "py_round (- 6.9) 2 = - 6.9"
    by (simp add: py_round_def round_half_even_def)
  from wind_simulate_scenario_returns[OF ue w,
         of demo_runtime "''ujemna predkosc''" False "''2025-09-01T12:00:00''" 0]
  obtain res g1 where r:
    "wind_simulate_scenario demo_runtime test_wind_sim (- 5) 0 ''ujemna predkosc''
       False ''2025-09-01T12:00:00'' 0 = (Inr res, g1)"
    "max_speed (w_wind_field_analysis res) = py_round (max_tunnel_speed ?ue) 2"
    by blast
  have "max_speed (w_wind_field_analysis res) = - 6.9"
    using r(2) rd by (simp add: d0)
  then show ?thesis
    using test_wind_sim_init ue r(1) by (simp add: d0)
qed

section \<open>Reseeding and reproducibility\<close>

lemma generate_flood_zones_reseeds:
  "generate_flood_zones rt sim name md pct g1 = generate_flood_zones rt sim name md pct g2"
  by (simp add: generate_flood_zones_def)

lemma generate_wind_field_reseeds:
  "generate_wind_field rt sim name1 u dir ue g1 = generate_wind_field rt sim name2 u dir ue g2"
  by (simp add: generate_wind_field_def)

lemma generate_comfort_points_reseeds:
  "generate_comfort_points rt sim name zr oc g1 = generate_comfort_points rt sim name zr oc g2"
  by (simp add: generate_comfort_points_def)

lemma flood_simulate_scenario_noninterference:
  "fst (flood_simulate_scenario rt sim r d name detailed now1 g1)
     = map_sum id (\<lambda>res. res \<lparr> f_computation_time := now1 \<rparr>)
         (fst (flood_simulate_scenario rt sim r d name detailed now2 g2))"
proof -
  obtain eff exc tot where e: "calculate_effective_rainfall sim r d = (eff, exc, tot)"
    by (cases "calculate_effective_rainfall sim r d") auto
  obtain md pct where dp: "calculate_flood_depths tot = (md, pct)"
    by (cases "calculate_flood_depths tot") auto
  show ?thesis
  proof (cases detailed)
    case True
    obtain zs g' where z: "generate_flood_zones rt sim name md pct g2 = (zs, g')"
      by (cases "generate_flood_zones rt sim name md pct g2") auto
    then have z1: "generate_flood_zones rt sim name md pct g1 = (zs, g')"
      using generate_flood_zones_reseeds[of rt sim name md pct g1 g2] by simp
    show ?thesis
      using True e dp z z1
      by (simp add: flood_simulate_scenario_def Let_def py_index_risk_levels
            split: sum.splits)
  next
    case False
    then show ?thesis
      using e dp
      by (simp add: flood_simulate_scenario_def Let_def py_index_risk_levels)
  qed
qed

lemma wind_simulate_scenario_noninterference:
  "fst (wind_simulate_scenario rt sim u dir name1 detailed now1 g1)
     = map_sum id (\<lambda>res. res \<lparr> w_scenario_name := name1, w_computation_time := now1 \<rparr>)
         (fst (wind_simulate_scenario rt sim u dir name2 detailed now2 g2))"
proof (cases "calculate_urban_effects sim u dir")
  case (Inl e)
  then show ?thesis by (simp add: wind_simulate_scenario_def)
next
  case (Inr effects)
  show ?thesis
    using Inr generate_wind_field_reseeds[of rt sim name1 u dir effects g1 name2 g2]
    by (cases detailed)
       (simp_all add: wind_simulate_scenario_def Let_def split: prod.splits)
qed

lemma thermal_simulate_scenario_noninterference:
  "fst (thermal_simulate_scenario rt sim ta rh va sr name ssn detailed now1 g1)
     = map_sum id (\<lambda>res. res \<lparr> t_computation_time := now1 \<rparr>)
         (fst (thermal_simulate_scenario rt sim ta rh va sr name ssn detailed now2 g2))"
proof -
  obtain zr oc where z:
    "zones_loop rt ta rh va sr (dict_get_default activity_values ssn 1.2)
       (dict_get_default clothing_values ssn 0.7) define_urban_zones ([], 0) = (zr, oc)"
    by (cases "zones_loop rt ta rh va sr (dict_get_default activity_values ssn 1.2)
       (dict_get_default clothing_values ssn 0.7) define_urban_zones ([], 0)") auto
  show ?thesis
  proof (cases detailed)
    case True
    obtain ps g' where p: "generate_comfort_points rt sim name zr oc g2 = (ps, g')"
      by (cases "generate_comfort_points rt sim name zr oc g2") auto
    then have p1: "generate_comfort_points rt sim name zr oc g1 = (ps, g')"
      using generate_comfort_points_reseeds[of rt sim name zr oc g1 g2] by simp
    show ?thesis
      using True z p p1
      by (simp add: thermal_simulate_scenario_def Let_def split: sum.splits)
  next
    case False
    then show ?thesis
      using z by (simp add: thermal_simulate_scenario_def Let_def)
  qed
qed

text \<open>
  C10. The scenario name enters the wind simulation only as the echoed field: for the same
  simulator, reference speed and direction, the result for one name is the result for any
  other name with the name (and the time stamp) replaced, whatever state the generator
  was in before either call; the wind-field points are the same.
\<close>

theorem wind_scenario_name_only_echoed:
  "fst (wind_simulate_scenario rt sim u dir name1 detailed now1 g1)
     = map_sum id (\<lambda>res. res \<lparr> w_scenario_name := name1, w_computation_time := now1 \<rparr>)
         (fst (wind_simulate_scenario rt sim u dir name2 detailed now2 g2))
   \<and> generate_wind_field rt sim name1 u dir ue g1 = generate_wind_field rt sim name2 u dir ue g2"
  using wind_simulate_scenario_noninterference[of rt sim u dir name1 detailed now1 g1 name2 now2 g2]
        generate_wind_field_reseeds[of rt sim name1 u dir ue g1 name2 g2]
  by simp

text \<open>
  Within one run of the interpreter two calls of \<open>simulate_scenario\<close> with the same input
  differ at most in the time stamp, whatever the clock shows and whatever state the shared
  generator is in before each call, for each of the three simulators: every point
  generator starts by reseeding.
\<close>

lemma simulate_scenario_repeatable_within_run:
  "fst (flood_simulate_scenario rt fsim r d name detailed now1 g1)
     = map_sum id (\<lambda>res. res \<lparr> f_computation_time := now1 \<rparr>)
         (fst (flood_simulate_scenario rt fsim r d name detailed now2 g2))
   \<and> fst (wind_simulate_scenario rt wsim u dir name detailed now1 g1)
     = map_sum id (\<lambda>res. res \<lparr> w_computation_time := now1 \<rparr>)
         (fst (wind_simulate_scenario rt wsim u dir name detailed now2 g2))
   \<and> fst (thermal_simulate_scenario rt tsim ta rh va sr name ssn detailed now1 g1)
     = map_sum id (\<lambda>res. res \<lparr> t_computation_time := now1 \<rparr>)
         (fst (thermal_simulate_scenario rt tsim ta rh va sr name ssn detailed now2 g2))
   \<and> generate_flood_zones rt fsim name md pct g1 = generate_flood_zones rt fsim name md pct g2
   \<and> generate_wind_field rt wsim name u dir ue g1 = generate_wind_field rt wsim name u dir ue g2
   \<and> generate_comfort_points rt tsim name zr oc g1
       = generate_comfort_points rt tsim name zr oc g2"
proof -
  have w: "fst (wind_simulate_scenario rt wsim u dir name detailed now1 g1)
     = map_sum id (\<lambda>res. res \<lparr> w_computation_time := now1 \<rparr>)
         (fst (wind_simulate_scenario rt wsim u dir name detailed now2 g2))"
  proof (cases "fst (wind_simulate_scenario rt wsim u dir name detailed now2 g2)")
    case (Inl e)
    then show ?thesis
      using wind_simulate_scenario_noninterference[of rt wsim u dir name detailed now1 g1 name now2 g2]
      by simp
  next
    case (Inr res)
    have "w_scenario_name res = name"
      using Inr
      by (auto simp: wind_simulate_scenario_def Let_def
            split: sum.splits prod.splits if_splits)
    then show ?thesis
      using Inr wind_simulate_scenario_noninterference[of rt wsim u dir name detailed now1 g1 name now2 g2]
      by simp
  qed
  show ?thesis
    using w flood_simulate_scenario_noninterference[of rt fsim r d name detailed now1 g1 now2 g2]
          thermal_simulate_scenario_noninterference[of rt tsim ta rh va sr name ssn detailed now1 g1 now2 g2]
          generate_flood_zones_reseeds[of rt fsim name md pct g1 g2]
          generate_wind_field_reseeds[of rt wsim name u dir ue g1 name g2]
          generate_comfort_points_reseeds[of rt tsim name zr oc g1 g2]
    by simp
qed

text \<open>
  The flood zones of a scenario, and the latitude of the first of them, as a function of
  the seed that the string hash of the scenario name gives.
\<close>

lemma for_range_first:
  "0 < n \<Longrightarrow> map f (take (Suc 0) (fst (for_range body i n g))) = [f (fst (body i g))]"
  by (cases n) (simp_all split: prod.splits)

lemma flood_zone_at_lat:
  "fz_lat (fst (flood_zone_at rt sim md clat clng i g))
     = py_round (clat + fst (np_normal rt 0 0.008 g)) 6"
  by (simp add: flood_zone_at_def Let_def split: prod.splits)

lemma flood_simulate_scenario_zones:
  assumes "config_location (f_config sim) ''center_lat'' = Inr clat"
      and "config_location (f_config sim) ''center_lng'' = Inr clng"
  shows "map_sum id flood_zones (fst (flood_simulate_scenario rt sim r d name True now g))
           = Inr (Some (fst (for_range
                   (flood_zone_at rt sim (max_depth_of sim r d) clat clng) 0
                   (nat (max 5 (min 50 (py_int (flooded_area_pct_of sim r d * 0.8)))))
                   (np_seed rt (nat (\<bar>py_hash rt name\<bar> mod 2 ^ 31))))))"
proof -
  obtain eff exc tot where e: "calculate_effective_rainfall sim r d = (eff, exc, tot)"
    by (cases "calculate_effective_rainfall sim r d") auto
  obtain md pct where dp: "calculate_flood_depths tot = (md, pct)"
    by (cases "calculate_flood_depths tot") auto
  show ?thesis
    using assms e dp
    by (simp add: flood_simulate_scenario_def generate_flood_zones_def Let_def
          py_index_risk_levels max_depth_of_def flooded_area_pct_of_def total_excess_of_def
          split: prod.splits)
qed

lemma first_flood_zone_latitude:
  assumes "FloodSimulator_init cfg = Inr sim"
      and "config_location cfg ''center_lat'' = Inr clat"
      and "config_location cfg ''center_lng'' = Inr clng"
  shows "map_sum id (\<lambda>res. map_option (\<lambda>zs. map fz_lat (take 1 zs)) (flood_zones res))
           (fst (flood_simulate_scenario rt sim 65 2 name True now g))
         = Inr (Some [py_round (clat + fst (np_normal rt 0 0.008
                         (np_seed rt (nat (\<bar>py_hash rt name\<bar> mod 2 ^ 31))))) 6])"
proof -
  note f = FloodSimulator_init_fields[OF assms(1)]
  have c: "config_location (f_config sim) ''center_lat'' = Inr clat"
          "config_location (f_config sim) ''center_lng'' = Inr clng"
    using assms f by simp_all
  have pct: "flooded_area_pct_of sim 65 2 = 30.6"
    by (simp add: flooded_area_pct_of_def total_excess_of_def calculate_effective_rainfall_def
          calculate_flood_depths_def f Let_def)
  have n: "nat (max 5 (min 50 (py_int (flooded_area_pct_of sim 65 2 * 0.8)))) = Suc 23"
    unfolding pct by (simp add: py_int_def)
  have z: "map_sum id flood_zones (fst (flood_simulate_scenario rt sim 65 2 name True now g))
           = Inr (Some (fst (for_range
                   (flood_zone_at rt sim (max_depth_of sim 65 2) clat clng) 0 (Suc 23)
                   (np_seed rt (nat (\<bar>py_hash rt name\<bar> mod 2 ^ 31))))))"
    using flood_simulate_scenario_zones[OF c, of rt 65 2 name now g] unfolding n .
  obtain res where r: "fst (flood_simulate_scenario rt sim 65 2 name True now g) = Inr res"
    using z by (cases "fst (flood_simulate_scenario rt sim 65 2 name True now g)") auto
  show ?thesis
    using z unfolding r
    by (simp add: for_range_first flood_zone_at_lat del: for_range.simps)
qed

text \<open>
  C1. The results are not a function of the configuration and the scenario input alone:
  the flood point generator seeds from Python's hash of the scenario name (the thermal one
  from the same hash plus the comfort score), and that hash changes with the run of the
  interpreter. For the same simulator and the same scenario, two runs that differ only in
  the string hash produce different flood zones: the first zone lies at latitude 54.1 in
  one and at 54.104 in the other. The wind generator does not use the hash.
\<close>

theorem flood_zones_depend_on_hash_salt:
  "FloodSimulator_init test_config = Inr test_flood_sim
   \<and> map_sum id (\<lambda>res. map_option (\<lambda>zs. map fz_lat (take 1 zs)) (flood_zones res))
        (fst (flood_simulate_scenario demo_runtime test_flood_sim 65 2
                ''Test intensywny deszcz'' True ''2025-09-01T12:00:00'' 0))
       = Inr (Some [54.1])
   \<and> map_sum id (\<lambda>res. map_option (\<lambda>zs. map fz_lat (take 1 zs)) (flood_zones res))
        (fst (flood_simulate_scenario demo_runtime_resalted test_flood_sim 65 2
                ''Test intensywny deszcz'' True ''2025-09-01T12:00:00'' 0))
       = Inr (Some [54.104])
   \<and> fst (flood_simulate_scenario demo_runtime test_flood_sim 65 2
             ''Test intensywny deszcz'' True ''2025-09-01T12:00:00'' 0)
       \<noteq> fst (flood_simulate_scenario demo_runtime_resalted test_flood_sim 65 2
             ''Test intensywny deszcz'' True ''2025-09-01T12:00:00'' 0)"
proof -
  have a: "map_sum id (\<lambda>res. map_option (\<lambda>zs. map fz_lat (take 1 zs)) (flood_zones res))
        (fst (flood_simulate_scenario demo_runtime test_flood_sim 65 2
                ''Test intensywny deszcz'' True ''2025-09-01T12:00:00'' 0))
       = Inr (Some [54.1])"
    unfolding first_flood_zone_latitude[OF test_flood_sim_init test_config_centre]
    by (simp add: demo_runtime_def py_round_def round_half_even_def)
  have b: "map_sum id (\<lambda>res. map_option (\<lambda>zs. map fz_lat (take 1 zs)) (flood_zones res))
        (fst (flood_simulate_scenario demo_runtime_resalted test_flood_sim 65 2
                ''Test intensywny deszcz'' True ''2025-09-01T12:00:00'' 0))
       = Inr (Some [54.104])"
    unfolding first_flood_zone_latitude[OF test_flood_sim_init test_config_centre]
    by (simp add: demo_runtime_resalted_def demo_runtime_def py_round_def round_half_even_def)
  have "fst (flood_simulate_scenario demo_runtime test_flood_sim 65 2
             ''Test intensywny deszcz'' True ''2025-09-01T12:00:00'' 0)
       \<noteq> fst (flood_simulate_scenario demo_runtime_resalted test_flood_sim 65 2
             ''Test intensywny deszcz'' True ''2025-09-01T12:00:00'' 0)"
  proof
    assume "fst (flood_simulate_scenario demo_runtime test_flood_sim 65 2
             ''Test intensywny deszcz'' True ''2025-09-01T12:00:00'' 0)
       = fst (flood_simulate_scenario demo_runtime_resalted test_flood_sim 65 2
             ''Test intensywny deszcz'' True ''2025-09-01T12:00:00'' 0)"
    then have "Inr (Some [54.1 :: real]) = (Inr (Some [54.104]) :: py_error + real list option)"
      using a b by simp
    then show False by simp
  qed
  with a b test_flood_sim_init show ?thesis by blast
qed

section \<open>Properties of the thermal comfort simulator\<close>

lemma test_thermal_sim_init: "ThermalComfortSimulator_init test_config = Inr test_thermal_sim"
  by (simp add: test_thermal_sim_def ThermalComfortSimulator_init_def config_location_def
        dict_get_def test_config_def)

lemma pmv_iteration_unbound:
  "pmv_iteration sim ta ta_k tr_k va M W Icl fcl \<lparr> tcl = t, tcl_k = None, hc = h \<rparr>
     = Inl UnboundLocalError"
  by (simp add: pmv_iteration_def Let_def)

lemma pmv_loop_unbound:
  "pmv_loop (Suc n) (pmv_iteration sim ta ta_k tr_k va M W Icl fcl)
     \<lparr> tcl = t, tcl_k = None, hc = h \<rparr> = Inl UnboundLocalError"
  by (simp add: pmv_iteration_unbound)

lemma pmv_loop_10_unbound:
  "pmv_loop 10 (pmv_iteration sim ta ta_k tr_k va M W Icl fcl)
     \<lparr> tcl = t, tcl_k = None, hc = h \<rparr> = Inl UnboundLocalError"
  using pmv_loop_unbound[of 9 sim ta ta_k tr_k va M W Icl fcl t h] by simp

text \<open>
  C6. The detailed PMV computation never returns a value: the first pass of the iteration
  reads \<open>tcl_k\<close> before any assignment to it, so every call ends in
  \<open>UnboundLocalError\<close> (or, for an air temperature of -237.3 without a given vapour
  pressure, already in \<open>ZeroDivisionError\<close>). The call with air and radiant temperature
  25, air speed 0.1, humidity 50 and the default metabolic rate and clothing is an instance.
\<close>

theorem pmv_detailed_always_raises:
  "calculate_pmv_detailed sim ta tr va rh met clo pa
     = Inl (if pa = None \<and> ta + 237.3 = 0 then ZeroDivisionError else UnboundLocalError)
   \<and> calculate_pmv_detailed test_thermal_sim 25 25 0.1 50 1.2 0.7 None = Inl UnboundLocalError"
proof -
  have g: "calculate_pmv_detailed s a b c d e f p
     = Inl (if p = None \<and> a + 237.3 = 0 then ZeroDivisionError else UnboundLocalError)"
    for s a b c d e f p
    by (cases p) (simp_all add: calculate_pmv_detailed_def Let_def pmv_loop_10_unbound)
  show ?thesis
    by (simp add: g)
qed

text \<open>
  C7. The percentage of dissatisfied is the Fanger expression
  100 - 95 exp(-0.03353 PMV^4 - 0.2179 PMV^2) passed through the clamp to [5, 100]; the
  returned value lies in [5, 100] for every PMV, and at PMV = 0 it is exactly 5.
\<close>

theorem ppd_formula_clamped:
  "calculate_ppd_from_pmv v
     = max 5 (min 100 (100 - 95 * exp (- 0.03353 * v ^ 4 - 0.2179 * v\<^sup>2)))
   \<and> 5 \<le> calculate_ppd_from_pmv v
   \<and> calculate_ppd_from_pmv v \<le> 100
   \<and> calculate_ppd_from_pmv 0 = 5"
  by (simp add: calculate_ppd_from_pmv_def Let_def)

end
